theory Spec2Isabelle
  imports Main
begin

section \<open>Data model of the SMPP client (vumi/workers/smpp/client.py)\<close>

text \<open>
  Python 2 byte strings are lists of 8-bit characters, which is what \<open>string\<close> is.
  Python integers are unbounded, hence \<open>int\<close>.  A raise is a value \<open>Inl err\<close>;
  every operation returns its outcome together with the state it leaves behind, because
  a Python exception does not undo the mutations made before it.
\<close>

type_synonym bytes = string

datatype error =
    Exception string
  | KeyError string
  | TypeError
  | AttributeError
  | UnicodeDecodeError
  | PduError

datatype pyval = PNone | PInt int | PStr string

text \<open>What the deliver callback receives as \<open>short_message\<close>: the value as it came
  (a byte string or \<open>None\<close>), or the unicode object, a list of code points, that
  \<open>message.decode(codec)\<close> returned.\<close>

datatype message = Raw pyval | Decoded "nat list"

type_synonym fields = "string \<rightharpoonup> pyval"

datatype conn_state = CLOSED | OPEN | BOUND_TRX | BOUND_TX

datatype fault_class =
  ok | mess_permfault | mess_tempfault | conn_permfault | conn_tempfault | conn_throttle

record config =
  system_id :: string
  host :: string
  port :: string
  smpp_increment :: int
  smpp_offset :: int

text \<open>An inbound PDU as \<open>unpack_pdu\<close> returns it: the header fields, and the body's
  mandatory parameters (\<open>None\<close> when the PDU has no body).\<close>

record pdu =
  command_id :: string
  command_status :: string
  sequence_number :: int
  mandatory_parameters :: "fields option"
  optional_parameters :: "(string \<times> pyval) list"

text \<open>PDUs built by the client, as handed to \<open>sendPDU\<close>.\<close>

datatype dest = DestinationAddress pyval pyval pyval | DistributionList pyval

datatype out_pdu =
    BindTransceiver int fields
  | SubmitSM int fields
  | SubmitMulti int fields "dest list"
  | EnquireLink int fields
  | QuerySM int pyval pyval fields
  | DeliverSMResp int fields
  | EnquireLinkResp int

text \<open>Invocations of the host's callbacks and of the installed error handlers.\<close>

datatype callback =
    ErrorHandler fault_class pdu
  | ConnectCallback
  | SubmitSMRespCallback int string string pyval
  | DeliveryReportCallback pyval pyval "(string \<times> string) list"
  | DeliverSMCallback pyval pyval message

text \<open>
  The protocol instance \<open>EsmeTransceiver\<close>.  \<open>seq\<close> is the address of the one-element
  list that holds the sequence cursor: the factory and every protocol it builds hold a
  reference to a list object, and the model keeps the objects in \<open>cells\<close>.
  \<open>lc_enquire\<close> tells whether the attribute of that name (the looping call) exists.
\<close>

record engine =
  state :: conn_state
  seq :: nat
  inc :: int
  datastream :: bytes
  defaults :: fields
  lc_enquire :: bool
  r_prefix :: string

text \<open>
  What the protocol instances share: the heap of cursor cells, the Redis server
  (lists and string values by key; a missing list key is the empty list), the bytes
  written to the transports in the order of the \<open>sendPDU\<close> calls, and the callback
  invocations in order.
\<close>

record shared =
  cells :: "nat \<Rightarrow> int"
  next_cell :: nat
  r_lists :: "string \<Rightarrow> pyval list"
  r_strings :: "string \<rightharpoonup> string"
  wire :: "out_pdu list"
  calls :: "callback list"

type_synonym st = "engine \<times> shared"

record factory =
  f_config :: config
  f_seq :: nat
  f_defaults :: fields
  initialDelay :: int
  maxDelay :: int

section \<open>Sequence allocator\<close>

definition getSeq :: "st \<Rightarrow> int" where
  "getSeq s = cells (snd s) (seq (fst s))"

definition incSeq :: "st \<Rightarrow> st" where
  "incSeq s =
     (fst s, (snd s)\<lparr>cells := (cells (snd s))(seq (fst s) := cells (snd s) (seq (fst s)) + inc (fst s))\<rparr>)"

section \<open>Framer\<close>

text \<open>\<open>int(binascii.b2a_hex(self.datastream[0:4]), 16)\<close>: the first four bytes read as a
  big-endian number.\<close>

definition command_length :: "bytes \<Rightarrow> nat" where
  "command_length ds = foldl (\<lambda>a c. a * 256 + of_char c) 0 (take 4 ds)"

definition popData :: "engine \<Rightarrow> bytes option \<times> engine" where
  "popData e =
     (if 16 \<le> length (datastream e) then
        (if command_length (datastream e) \<le> length (datastream e) then
           (Some (take (command_length (datastream e)) (datastream e)),
            e\<lparr>datastream := drop (command_length (datastream e)) (datastream e)\<rparr>)
         else (None, e))
      else (None, e))"

section \<open>Status classifier\<close>

definition ESME_command_status_dispatch_map :: "(string \<times> fault_class) list" where
  "ESME_command_status_dispatch_map = [
     (''ESME_ROK'', ok),
     (''ESME_RINVMSGLEN'', mess_permfault),
     (''ESME_RINVCMDLEN'', mess_permfault),
     (''ESME_RINVCMDID'', mess_permfault),
     (''ESME_RINVBNDSTS'', conn_tempfault),
     (''ESME_RALYBND'', conn_tempfault),
     (''ESME_RINVPRTFLG'', mess_permfault),
     (''ESME_RINVREGDLVFLG'', mess_permfault),
     (''ESME_RSYSERR'', conn_permfault),
     (''ESME_RINVSRCADR'', mess_permfault),
     (''ESME_RINVDSTADR'', mess_permfault),
     (''ESME_RINVMSGID'', mess_permfault),
     (''ESME_RBINDFAIL'', conn_permfault),
     (''ESME_RINVPASWD'', conn_permfault),
     (''ESME_RINVSYSID'', conn_permfault),
     (''ESME_RCANCELFAIL'', mess_permfault),
     (''ESME_RREPLACEFAIL'', mess_permfault),
     (''ESME_RMSGQFUL'', conn_throttle),
     (''ESME_RINVSERTYP'', conn_permfault),
     (''ESME_RINVNUMDESTS'', mess_permfault),
     (''ESME_RINVDLNAME'', mess_permfault),
     (''ESME_RINVDESTFLAG'', mess_permfault),
     (''ESME_RINVSUBREP'', mess_permfault),
     (''ESME_RINVESMCLASS'', mess_permfault),
     (''ESME_RCNTSUBDL'', mess_permfault),
     (''ESME_RSUBMITFAIL'', mess_tempfault),
     (''ESME_RINVSRCTON'', mess_permfault),
     (''ESME_RINVSRCNPI'', mess_permfault),
     (''ESME_RINVDSTTON'', mess_permfault),
     (''ESME_RINVDSTNPI'', mess_permfault),
     (''ESME_RINVSYSTYP'', conn_permfault),
     (''ESME_RINVREPFLAG'', mess_permfault),
     (''ESME_RINVNUMMSGS'', mess_tempfault),
     (''ESME_RTHROTTLED'', conn_throttle),
     (''ESME_RINVSCHED'', mess_permfault),
     (''ESME_RINVEXPIRY'', mess_permfault),
     (''ESME_RINVDFTMSGID'', mess_permfault),
     (''ESME_RX_T_APPN'', mess_tempfault),
     (''ESME_RX_P_APPN'', mess_permfault),
     (''ESME_RX_R_APPN'', mess_permfault),
     (''ESME_RQUERYFAIL'', mess_permfault),
     (''ESME_RINVOPTPARSTREAM'', mess_permfault),
     (''ESME_ROPTPARNOTALLWD'', mess_permfault),
     (''ESME_RINVPARLEN'', mess_permfault),
     (''ESME_RMISSINGOPTPARAM'', mess_permfault),
     (''ESME_RINVOPTPARAMVAL'', mess_permfault),
     (''ESME_RDELIVERYFAILURE'', mess_tempfault),
     (''ESME_RUNKNOWNERR'', mess_tempfault)]"

text \<open>\<open>self.ESME_command_status_dispatch_map.get(status, self.dispatch_ok)\<close>; the method
  found returns the handler installed under the class name, so the class is what the
  lookup decides.\<close>

definition command_status_dispatch :: "string \<Rightarrow> fault_class" where
  "command_status_dispatch status =
     (case map_of ESME_command_status_dispatch_map status of
        None \<Rightarrow> ok
      | Some c \<Rightarrow> c)"

section \<open>Factory\<close>

text \<open>\<open>EsmeTransceiverFactory.__init__\<close>: three checks in the source's order, then the
  cursor list \<open>[offset]\<close> is allocated.\<close>

definition EsmeTransceiverFactory_init :: "config \<Rightarrow> shared \<Rightarrow> (error + factory) \<times> shared" where
  "EsmeTransceiverFactory_init cfg sh =
     (if smpp_increment cfg < smpp_offset cfg then
        (Inl (Exception ''increment may not be less than offset''), sh)
      else if smpp_increment cfg < 1 then
        (Inl (Exception ''increment may not be less than 1''), sh)
      else if smpp_offset cfg < 1 then
        (Inl (Exception ''offset may not be less than 1''), sh)
      else
        (Inr \<lparr>f_config = cfg, f_seq = next_cell sh,
              f_defaults = [''host'' \<mapsto> PStr ''127.0.0.1'', ''port'' \<mapsto> PInt 2775,
                            ''dest_addr_ton'' \<mapsto> PInt 0, ''dest_addr_npi'' \<mapsto> PInt 0],
              initialDelay = 30, maxDelay = 45\<rparr>,
         sh\<lparr>cells := (cells sh)(next_cell sh := smpp_offset cfg),
            next_cell := Suc (next_cell sh)\<rparr>))"

definition setLatestSequenceNumber :: "int \<Rightarrow> factory \<Rightarrow> shared \<Rightarrow> factory \<times> shared" where
  "setLatestSequenceNumber latest f sh =
     (f\<lparr>f_seq := next_cell sh\<rparr>,
      sh\<lparr>cells := (cells sh)(next_cell sh := latest), next_cell := Suc (next_cell sh)\<rparr>)"

section \<open>Library functions the client calls\<close>

text \<open>
  The PDU codec and the multipart inspector (python-smpp), \<open>json\<close> and the codecs behind
  \<open>str.decode\<close> are not part of this program; the model takes them as parameters.
  \<open>'d\<close> is what \<open>detect_multipart\<close> returns when it finds multipart markers (\<open>None\<close>
  stands for its falsy results), \<open>'j\<close> a decoded JSON value, \<open>'m\<close> a
  \<open>MultipartMessage\<close> object.
\<close>

record completed =
  to_msisdn :: pyval
  from_msisdn :: pyval
  message :: pyval

record ('d, 'j, 'm) library =
  unpack_pdu :: "bytes \<Rightarrow> error + pdu"
  str_decode :: "string \<Rightarrow> bytes \<Rightarrow> error + nat list"
  detect_multipart :: "pdu \<Rightarrow> 'd option"
  multipart_key :: "'d \<Rightarrow> string"
  json_loads :: "string \<Rightarrow> 'j"
  json_dumps :: "'j \<Rightarrow> string"
  MultipartMessage :: "'j \<Rightarrow> 'm"
  add_pdu :: "'m \<Rightarrow> pdu \<Rightarrow> 'm"
  get_completed :: "'m \<Rightarrow> completed option"
  get_array :: "'m \<Rightarrow> 'j"

section \<open>The delivery receipt pattern\<close>

text \<open>
  The regular expression of \<open>handle_deliver_sm\<close> is a sequence of literals and of
  repetitions of one character class, some of them named groups.  Python's \<open>re.search\<close>
  tries every start position from the left; each repetition is greedy and backtracks
  to shorter matches.
\<close>

datatype piece =
    Lit string
  | Rep "char \<Rightarrow> bool" nat "nat option"
  | Grp string "char \<Rightarrow> bool" nat "nat option"

definition re_space :: "char \<Rightarrow> bool" where
  "re_space c = (c = CHR '' '')"

definition re_nonspace :: "char \<Rightarrow> bool" where
  "re_nonspace c = ((of_char c :: nat) \<notin> {9, 10, 11, 12, 13, 32})"

definition re_dot :: "char \<Rightarrow> bool" where
  "re_dot c = ((of_char c :: nat) \<noteq> 10)"

definition re_digit :: "char \<Rightarrow> bool" where
  "re_digit c = (48 \<le> (of_char c :: nat) \<and> (of_char c :: nat) \<le> 57)"

definition re_upper :: "char \<Rightarrow> bool" where
  "re_upper c = (65 \<le> (of_char c :: nat) \<and> (of_char c :: nat) \<le> 90)"

definition delivery_report_pattern :: "piece list" where
  "delivery_report_pattern =
     [Lit ''id:'', Grp ''id'' re_nonspace 0 (Some 65),
      Rep re_space 1 None, Lit ''sub:'', Grp ''sub'' re_dot 3 (Some 3),
      Rep re_space 1 None, Lit ''dlvrd:'', Grp ''dlvrd'' re_dot 3 (Some 3),
      Rep re_space 1 None, Lit ''submit date:'', Grp ''submit_date'' re_digit 0 None,
      Rep re_space 1 None, Lit ''done date:'', Grp ''done_date'' re_digit 0 None,
      Rep re_space 1 None, Lit ''stat:'', Grp ''stat'' re_upper 7 (Some 7),
      Rep re_space 1 None, Lit ''err:'', Grp ''err'' re_dot 3 (Some 3),
      Rep re_space 1 None, Rep (\<lambda>c. c = CHR ''T'' \<or> c = CHR ''t'') 1 (Some 1), Lit ''ext:'',
      Grp ''text'' re_dot 0 (Some 20),
      Rep re_dot 0 None]"

text \<open>The repetition counts to try on \<open>s\<close>, longest first.\<close>

definition counts :: "(char \<Rightarrow> bool) \<Rightarrow> nat \<Rightarrow> nat option \<Rightarrow> string \<Rightarrow> nat list" where
  "counts cls lo hi s =
     rev [lo ..< Suc (case hi of None \<Rightarrow> length (takeWhile cls s)
                               | Some h \<Rightarrow> min h (length (takeWhile cls s)))]"

fun first_some :: "'a option list \<Rightarrow> 'a option" where
  "first_some [] = None"
| "first_some (Some r # rs) = Some r"
| "first_some (None # rs) = first_some rs"

fun match_pieces :: "piece list \<Rightarrow> string \<Rightarrow> (string \<times> string) list option" where
  "match_pieces [] s = Some []"
| "match_pieces (Lit l # ps) s =
     (if take (length l) s = l then match_pieces ps (drop (length l) s) else None)"
| "match_pieces (Rep cls lo hi # ps) s =
     first_some (map (\<lambda>k. match_pieces ps (drop k s)) (counts cls lo hi s))"
| "match_pieces (Grp name cls lo hi # ps) s =
     first_some (map (\<lambda>k. map_option (\<lambda>g. (name, take k s) # g) (match_pieces ps (drop k s)))
                     (counts cls lo hi s))"

fun re_search :: "piece list \<Rightarrow> string \<Rightarrow> (string \<times> string) list option" where
  "re_search ps [] = match_pieces ps []"
| "re_search ps (c # cs) =
     (case match_pieces ps (c # cs) of
        Some g \<Rightarrow> Some g
      | None \<Rightarrow> re_search ps cs)"

section \<open>Redis and the transport\<close>

definition lpush :: "string \<Rightarrow> pyval \<Rightarrow> shared \<Rightarrow> shared" where
  "lpush key v sh = sh\<lparr>r_lists := (r_lists sh)(key := v # r_lists sh key)\<rparr>"

text \<open>\<open>lpop\<close> on an empty or missing list removes nothing (\<open>tl [] = []\<close>); the client
  never looks at the value popped.\<close>

definition lpop :: "string \<Rightarrow> shared \<Rightarrow> shared" where
  "lpop key sh = sh\<lparr>r_lists := (r_lists sh)(key := tl (r_lists sh key))\<rparr>"

definition llen :: "string \<Rightarrow> shared \<Rightarrow> nat" where
  "llen key sh = length (r_lists sh key)"

definition unacked_key :: "engine \<Rightarrow> string" where
  "unacked_key e = r_prefix e @ ''#unacked''"

definition sendPDU :: "out_pdu \<Rightarrow> st \<Rightarrow> st" where
  "sendPDU p s = (fst s, (snd s)\<lparr>wire := wire (snd s) @ [p]\<rparr>)"

definition invoke :: "callback \<Rightarrow> shared \<Rightarrow> shared" where
  "invoke c sh = sh\<lparr>calls := calls sh @ [c]\<rparr>"

definition lookup :: "fields \<Rightarrow> string \<Rightarrow> error + pyval" where
  "lookup d k = (case d k of None \<Rightarrow> Inl (KeyError k) | Some v \<Rightarrow> Inr v)"

definition bound :: "engine \<Rightarrow> bool" where
  "bound e = (state e = BOUND_TX \<or> state e = BOUND_TRX)"

section \<open>Keep-alive\<close>

text \<open>\<open>enquire_link\<close> is one of the four outbound operations; it stands here because the
  handler of the bind response starts the looping call that calls it.\<close>

definition enquire_link :: "fields \<Rightarrow> st \<Rightarrow> (error + int) \<times> st" where
  "enquire_link kwargs s =
     (if bound (fst s) then
        (let sequence_number = getSeq s;
             p = EnquireLink sequence_number (defaults (fst s) ++ kwargs);
             s1 = incSeq s;
             s2 = sendPDU p s1
         in (Inr sequence_number, s2))
      else (Inr 0, s))"

section \<open>Inbound handlers\<close>

text \<open>
  The host's callbacks and the error handlers are recorded as invocations; the model is
  of a protocol whose callbacks are installed.  \<open>handle_bind_transceiver_resp\<close> creates
  the looping call and starts it with \<open>start(55.0)\<close>, which calls \<open>enquire_link()\<close> once
  at once, in the new state and before the connect callback, and then every 55 seconds
  from the event loop; each later call is a \<open>Tick\<close> event of a run below.
\<close>

definition handle_bind_transceiver_resp :: "pdu \<Rightarrow> st \<Rightarrow> st" where
  "handle_bind_transceiver_resp p s =
     (if command_status p = ''ESME_ROK'' then
        (let s1 = ((fst s)\<lparr>state := BOUND_TRX, lc_enquire := True\<rparr>, snd s);
             s2 = snd (enquire_link Map.empty s1)
         in (fst s2, invoke ConnectCallback (snd s2)))
      else s)"

text \<open>\<open>pdu.get('body',{}).get('mandatory_parameters',{}).get('message_id')\<close>\<close>

definition get_message_id :: "pdu \<Rightarrow> pyval" where
  "get_message_id p =
     (case mandatory_parameters p of
        None \<Rightarrow> PNone
      | Some mp \<Rightarrow> (case mp ''message_id'' of None \<Rightarrow> PNone | Some v \<Rightarrow> v))"

definition handle_submit_sm_resp :: "pdu \<Rightarrow> st \<Rightarrow> st" where
  "handle_submit_sm_resp p s =
     (fst s,
      invoke (SubmitSMRespCallback (sequence_number p) (command_status p) (command_id p)
                (get_message_id p))
        (lpop (unacked_key (fst s)) (snd s)))"

definition handle_submit_multi_resp :: "pdu \<Rightarrow> st \<Rightarrow> st" where
  "handle_submit_multi_resp p s = s"

text \<open>\<open>_decode_message\<close>: the codec is looked up by \<open>data_coding\<close>; without one the
  message is returned as it came, with one \<open>message.decode(codec)\<close> is called, which only
  a string has.\<close>

definition codec_of :: "pyval \<Rightarrow> string option" where
  "codec_of data_coding =
     (if data_coding = PInt 1 then Some ''ascii''
      else if data_coding = PInt 3 then Some ''latin1''
      else if data_coding = PInt 8 then Some ''utf-16be''
      else None)"

definition decode_message :: "('d, 'j, 'm) library \<Rightarrow> pyval \<Rightarrow> pyval \<Rightarrow> error + message" where
  "decode_message lib msg data_coding =
     (case codec_of data_coding of
        None \<Rightarrow> Inr (Raw msg)
      | Some codec \<Rightarrow>
          (case msg of
             PStr bs \<Rightarrow> (case str_decode lib codec bs of
                           Inl err \<Rightarrow> Inl err
                         | Inr u \<Rightarrow> Inr (Decoded u))
           | _ \<Rightarrow> Inl AttributeError))"

text \<open>\<open>short_message or ''\<close>, as the argument of \<open>re.search\<close>.\<close>

definition or_empty :: "pyval \<Rightarrow> error + string" where
  "or_empty v =
     (case v of
        PNone \<Rightarrow> Inr []
      | PStr bs \<Rightarrow> Inr bs
      | PInt i \<Rightarrow> (if i = 0 then Inr [] else Inl TypeError))"

text \<open>The multipart branch: the buffer is read, the fragment added, and the message is
  either complete (key deleted, deliver callback) or written back.\<close>

definition reassemble :: "('d, 'j, 'm) library \<Rightarrow> string \<Rightarrow> pdu \<Rightarrow> shared \<Rightarrow> shared" where
  "reassemble lib redis_key p sh =
     (let stored = (case r_strings sh redis_key of
                      None \<Rightarrow> ''null''
                    | Some v \<Rightarrow> (if v = [] then ''null'' else v));
          multi = add_pdu lib (MultipartMessage lib (json_loads lib stored)) p
      in case get_completed lib multi of
           Some c \<Rightarrow>
             invoke (DeliverSMCallback (to_msisdn c) (from_msisdn c) (Raw (message c)))
               (sh\<lparr>r_strings := (r_strings sh)(redis_key := None)\<rparr>)
         | None \<Rightarrow>
             sh\<lparr>r_strings := (r_strings sh)(redis_key \<mapsto> json_dumps lib (get_array lib multi))\<rparr>)"

text \<open>What \<open>handle_deliver_sm\<close> does after the response is sent: the shared state it
  leaves, or the exception it raises.\<close>

definition deliver_branch :: "('d, 'j, 'm) library \<Rightarrow> pdu \<Rightarrow> engine \<Rightarrow> shared \<Rightarrow> error + shared" where
  "deliver_branch lib p e sh =
     (case mandatory_parameters p of
        None \<Rightarrow> Inl (KeyError ''body'')
      | Some mp \<Rightarrow>
     (case lookup mp ''short_message'' of
        Inl err \<Rightarrow> Inl err
      | Inr sm \<Rightarrow>
     (case or_empty sm of
        Inl err \<Rightarrow> Inl err
      | Inr text \<Rightarrow>
     (case re_search delivery_report_pattern text of
        Some groups \<Rightarrow>
          (case lookup mp ''destination_addr'' of
             Inl err \<Rightarrow> Inl err
           | Inr dst \<Rightarrow>
          (case lookup mp ''source_addr'' of
             Inl err \<Rightarrow> Inl err
           | Inr src \<Rightarrow> Inr (invoke (DeliveryReportCallback dst src groups) sh)))
      | None \<Rightarrow>
     (case detect_multipart lib p of
        Some d \<Rightarrow>
          Inr (reassemble lib (r_prefix e @ ''#multi_'' @ multipart_key lib d) p sh)
      | None \<Rightarrow>
          (case lookup mp ''data_coding'' of
             Inl err \<Rightarrow> Inl err
           | Inr dc \<Rightarrow>
          (case decode_message lib sm dc of
             Inl err \<Rightarrow> Inl err
           | Inr decoded_msg \<Rightarrow>
          (case lookup mp ''destination_addr'' of
             Inl err \<Rightarrow> Inl err
           | Inr dst \<Rightarrow>
          (case lookup mp ''source_addr'' of
             Inl err \<Rightarrow> Inl err
           | Inr src \<Rightarrow> Inr (invoke (DeliverSMCallback dst src decoded_msg) sh))))))))))"

definition handle_deliver_sm :: "('d, 'j, 'm) library \<Rightarrow> pdu \<Rightarrow> st \<Rightarrow> (error + unit) \<times> st" where
  "handle_deliver_sm lib p s =
     (if command_status p = ''ESME_ROK'' then
        (let s1 = sendPDU (DeliverSMResp (sequence_number p) (defaults (fst s))) s
         in case deliver_branch lib p (fst s1) (snd s1) of
              Inl err \<Rightarrow> (Inl err, s1)
            | Inr sh2 \<Rightarrow> (Inr (), (fst s1, sh2)))
      else (Inr (), s))"

definition handle_enquire_link :: "pdu \<Rightarrow> st \<Rightarrow> st" where
  "handle_enquire_link p s =
     (if command_status p = ''ESME_ROK'' then sendPDU (EnquireLinkResp (sequence_number p)) s
      else s)"

definition handle_enquire_link_resp :: "pdu \<Rightarrow> st \<Rightarrow> st" where
  "handle_enquire_link_resp p s = s"

text \<open>\<open>handleData\<close> after \<open>unpack_pdu\<close>: the error handler of the status class, then the
  chain of \<open>if\<close>s on \<open>command_id\<close>, in the source's order.\<close>

definition handle_pdu :: "('d, 'j, 'm) library \<Rightarrow> pdu \<Rightarrow> st \<Rightarrow> (error + unit) \<times> st" where
  "handle_pdu lib p s =
     (let s0 = (fst s, invoke (ErrorHandler (command_status_dispatch (command_status p)) p) (snd s));
          s1 = (if command_id p = ''bind_transceiver_resp''
                then handle_bind_transceiver_resp p s0 else s0);
          s2 = (if command_id p = ''submit_sm_resp'' then handle_submit_sm_resp p s1 else s1);
          s3 = (if command_id p = ''submit_multi_resp'' then handle_submit_multi_resp p s2 else s2)
      in case (if command_id p = ''deliver_sm'' then handle_deliver_sm lib p s3 else (Inr (), s3)) of
           (Inl err, s4) \<Rightarrow> (Inl err, s4)
         | (Inr _, s4) \<Rightarrow>
             (let s5 = (if command_id p = ''enquire_link'' then handle_enquire_link p s4 else s4);
                  s6 = (if command_id p = ''enquire_link_resp''
                        then handle_enquire_link_resp p s5 else s5)
              in (Inr (), s6)))"

definition handleData :: "('d, 'j, 'm) library \<Rightarrow> bytes \<Rightarrow> st \<Rightarrow> (error + unit) \<times> st" where
  "handleData lib data s =
     (case unpack_pdu lib data of
        Inl err \<Rightarrow> (Inl err, s)
      | Inr p \<Rightarrow> handle_pdu lib p s)"

text \<open>The loop of \<open>dataReceived\<close>.  It has no bound of its own: a buffer of sixteen bytes
  or more whose length prefix is zero pops the empty string again and again, so the
  loop is a partial function and \<open>None\<close> is its not returning.\<close>

partial_function (option) drain :: "('d, 'j, 'm) library \<Rightarrow> st \<Rightarrow> ((error + unit) \<times> st) option" where
  "drain lib s =
     (case popData (fst s) of
        (None, e') \<Rightarrow> Some (Inr (), (e', snd s))
      | (Some data, e') \<Rightarrow>
          (case handleData lib data (e', snd s) of
             (Inl err, s') \<Rightarrow> Some (Inl err, s')
           | (Inr _, s') \<Rightarrow> drain lib s'))"

definition dataReceived :: "('d, 'j, 'm) library \<Rightarrow> bytes \<Rightarrow> st \<Rightarrow> ((error + unit) \<times> st) option" where
  "dataReceived lib data s = drain lib ((fst s)\<lparr>datastream := datastream (fst s) @ data\<rparr>, snd s)"

section \<open>Outbound operations\<close>

definition submit_sm :: "fields \<Rightarrow> st \<Rightarrow> (error + int) \<times> st" where
  "submit_sm kwargs s =
     (if bound (fst s) then
        (let sequence_number = getSeq s;
             p = SubmitSM sequence_number (defaults (fst s) ++ kwargs);
             s1 = incSeq s;
             s2 = sendPDU p s1;
             s3 = (fst s2, lpush (unacked_key (fst s2)) (PInt 1) (snd s2))
         in (Inr sequence_number, s3))
      else (Inr 0, s))"

text \<open>The entries of \<open>dest_address\<close>: a string, a dictionary, or anything else.\<close>

datatype dest_item = ItemStr string | ItemDict fields | ItemOther

definition get_or :: "fields \<Rightarrow> string \<Rightarrow> pyval \<Rightarrow> pyval" where
  "get_or d k dflt = (case d k of None \<Rightarrow> dflt | Some v \<Rightarrow> v)"

text \<open>One round of the loop of \<open>submit_multi\<close>.  The default of \<open>item.get(key, default)\<close> is
  evaluated before the call, so \<open>self.defaults['dest_addr_ton']\<close> is looked up also for
  an entry that has its own.\<close>

definition add_item :: "fields \<Rightarrow> dest_item \<Rightarrow> error + dest list" where
  "add_item dflts item =
     (case item of
        ItemStr a \<Rightarrow>
          (case lookup dflts ''dest_addr_ton'' of
             Inl err \<Rightarrow> Inl err
           | Inr ton \<Rightarrow>
          (case lookup dflts ''dest_addr_npi'' of
             Inl err \<Rightarrow> Inl err
           | Inr npi \<Rightarrow> Inr [DestinationAddress (PStr a) ton npi]))
      | ItemDict d \<Rightarrow>
          (if d ''dest_flag'' = Some (PInt 1) then
             (case lookup dflts ''dest_addr_ton'' of
                Inl err \<Rightarrow> Inl err
              | Inr ton \<Rightarrow>
             (case lookup dflts ''dest_addr_npi'' of
                Inl err \<Rightarrow> Inl err
              | Inr npi \<Rightarrow>
                  Inr [DestinationAddress (get_or d ''destination_addr'' (PStr []))
                         (get_or d ''dest_addr_ton'' ton) (get_or d ''dest_addr_npi'' npi)]))
           else if d ''dest_flag'' = Some (PInt 2) then
             Inr [DistributionList (get_or d ''dl_name'' PNone)]
           else Inr [])
      | ItemOther \<Rightarrow> Inr [])"

fun add_items :: "fields \<Rightarrow> dest_item list \<Rightarrow> error + dest list" where
  "add_items dflts [] = Inr []"
| "add_items dflts (item # items) =
     (case add_item dflts item of
        Inl err \<Rightarrow> Inl err
      | Inr ds \<Rightarrow> (case add_items dflts items of
                     Inl err \<Rightarrow> Inl err
                   | Inr ds' \<Rightarrow> Inr (ds @ ds')))"

definition submit_multi :: "dest_item list \<Rightarrow> fields \<Rightarrow> st \<Rightarrow> (error + int) \<times> st" where
  "submit_multi dest_address kwargs s =
     (if bound (fst s) then
        (let sequence_number = getSeq s
         in case add_items (defaults (fst s)) dest_address of
              Inl err \<Rightarrow> (Inl err, s)
            | Inr ds \<Rightarrow>
                (let p = SubmitMulti sequence_number (defaults (fst s) ++ kwargs) ds;
                     s1 = incSeq s;
                     s2 = sendPDU p s1
                 in (Inr sequence_number, s2)))
      else (Inr 0, s))"

definition query_sm :: "pyval \<Rightarrow> pyval \<Rightarrow> fields \<Rightarrow> st \<Rightarrow> (error + int) \<times> st" where
  "query_sm message_id source_addr kwargs s =
     (if bound (fst s) then
        (let sequence_number = getSeq s;
             p = QuerySM sequence_number message_id source_addr (defaults (fst s) ++ kwargs);
             s1 = incSeq s;
             s2 = sendPDU p s1
         in (Inr sequence_number, s2))
      else (Inr 0, s))"

section \<open>Connection events and the protocols of a factory\<close>

definition connectionMade :: "st \<Rightarrow> st" where
  "connectionMade s =
     (let s0 = ((fst s)\<lparr>state := OPEN\<rparr>, snd s);
          p = BindTransceiver (getSeq s0) (defaults (fst s0));
          s1 = incSeq s0
      in sendPDU p s1)"

definition connectionLost :: "st \<Rightarrow> st" where
  "connectionLost s = ((fst s)\<lparr>state := CLOSED, lc_enquire := False\<rparr>, snd s)"

definition EsmeTransceiver_init :: "nat \<Rightarrow> config \<Rightarrow> engine" where
  "EsmeTransceiver_init sq cfg =
     \<lparr>state = CLOSED, seq = sq, inc = smpp_increment cfg, datastream = [],
      defaults = Map.empty, lc_enquire = False,
      r_prefix = system_id cfg @ ''@'' @ host cfg @ '':'' @ port cfg\<rparr>"

definition loadDefaults :: "fields \<Rightarrow> engine \<Rightarrow> engine" where
  "loadDefaults d e = e\<lparr>defaults := defaults e ++ d\<rparr>"

definition buildProtocol :: "factory \<Rightarrow> engine" where
  "buildProtocol f = loadDefaults (f_defaults f) (EsmeTransceiver_init (f_seq f) (f_config f))"

text \<open>
  A run: the factory, every protocol it has built (the host may keep the old ones),
  and what they share.  An event names the protocol it is about by its index; an index
  that names no protocol changes nothing.  \<open>Data i d\<close> is the handling of one frame
  \<open>d\<close> that the receive loop popped, \<open>Tick i\<close> one firing, after the first, of the
  looping call of protocol \<open>i\<close>, \<open>Set_latest n\<close> the factory's \<open>setLatestSequenceNumber(n)\<close>, which
  gives the factory a new cursor list and leaves the protocols built before on the old.
\<close>

record world =
  the_factory :: factory
  engines :: "engine list"
  common :: shared

datatype event =
    Build
  | Made nat
  | Lost nat
  | Data nat bytes
  | Tick nat
  | Call_submit_sm nat fields
  | Call_submit_multi nat "dest_item list" fields
  | Call_enquire_link nat fields
  | Call_query_sm nat pyval pyval fields
  | Set_latest int

definition on_engine :: "nat \<Rightarrow> (st \<Rightarrow> st) \<Rightarrow> world \<Rightarrow> world" where
  "on_engine i f w =
     (if i < length (engines w) then
        (let s' = f (engines w ! i, common w)
         in w\<lparr>engines := (engines w)[i := fst s'], common := snd s'\<rparr>)
      else w)"

fun step :: "('d, 'j, 'm) library \<Rightarrow> world \<Rightarrow> event \<Rightarrow> world" where
  "step lib w Build = w\<lparr>engines := engines w @ [buildProtocol (the_factory w)]\<rparr>"
| "step lib w (Made i) = on_engine i connectionMade w"
| "step lib w (Lost i) = on_engine i connectionLost w"
| "step lib w (Data i data) = on_engine i (\<lambda>s. snd (handleData lib data s)) w"
| "step lib w (Tick i) =
     on_engine i (\<lambda>s. if lc_enquire (fst s) then snd (enquire_link Map.empty s) else s) w"
| "step lib w (Call_submit_sm i kwargs) = on_engine i (\<lambda>s. snd (submit_sm kwargs s)) w"
| "step lib w (Call_submit_multi i dest_address kwargs) =
     on_engine i (\<lambda>s. snd (submit_multi dest_address kwargs s)) w"
| "step lib w (Call_enquire_link i kwargs) = on_engine i (\<lambda>s. snd (enquire_link kwargs s)) w"
| "step lib w (Call_query_sm i message_id source_addr kwargs) =
     on_engine i (\<lambda>s. snd (query_sm message_id source_addr kwargs s)) w"
| "step lib w (Set_latest latest) =
     (let r = setLatestSequenceNumber latest (the_factory w) (common w)
      in w\<lparr>the_factory := fst r, common := snd r\<rparr>)"

definition run :: "('d, 'j, 'm) library \<Rightarrow> world \<Rightarrow> event list \<Rightarrow> world" where
  "run lib w evs = foldl (step lib) w evs"


text \<open>The sequence number of a PDU that took its number from the cursor; the two
  responses repeat the number of the PDU they answer.\<close>

fun allocated_seq :: "out_pdu \<Rightarrow> int option" where
  "allocated_seq (BindTransceiver n _) = Some n"
| "allocated_seq (SubmitSM n _) = Some n"
| "allocated_seq (SubmitMulti n _ _) = Some n"
| "allocated_seq (EnquireLink n _) = Some n"
| "allocated_seq (QuerySM n _ _ _) = Some n"
| "allocated_seq (DeliverSMResp _ _) = None"
| "allocated_seq (EnquireLinkResp _) = None"

definition allocated :: "shared \<Rightarrow> int list" where
  "allocated s = List.map_filter allocated_seq (wire s)"

text \<open>\<open>k\<close> calls of \<open>submit_sm\<close>, and the handling of a list of PDUs, on one protocol.\<close>

fun submit_sm_each :: "fields list \<Rightarrow> st \<Rightarrow> st" where
  "submit_sm_each [] s = s"
| "submit_sm_each (kwargs # rest) s = submit_sm_each rest (snd (submit_sm kwargs s))"

fun handle_each :: "('d, 'j, 'm) library \<Rightarrow> pdu list \<Rightarrow> st \<Rightarrow> st" where
  "handle_each lib [] s = s"
| "handle_each lib (p # ps) s = handle_each lib ps (snd (handle_pdu lib p s))"

section \<open>The invariant of a run\<close>

text \<open>
  Two predicates for the proofs about runs.  \<open>alloc_step\<close> is what one operation may do
  to the cursor: nothing, or write one PDU that carries the cursor value and add the
  increment to the cell.  \<open>cursor_inv\<close> is what every state of a run satisfies: all
  protocols hold the factory's cell, and the numbers written so far are the first terms
  of the progression from \<open>offset\<close> in steps of \<open>increment\<close>, the cell holding the next.
\<close>

definition alloc_step :: "st \<Rightarrow> st \<Rightarrow> bool" where
  "alloc_step s s' \<longleftrightarrow>
     seq (fst s') = seq (fst s) \<and> inc (fst s') = inc (fst s)
     \<and> ((cells (snd s') = cells (snd s) \<and> allocated (snd s') = allocated (snd s))
        \<or> (cells (snd s') = (cells (snd s))(seq (fst s) := getSeq s + inc (fst s))
           \<and> allocated (snd s') = allocated (snd s) @ [getSeq s]))"


text \<open>
  For the runs in which the host also calls \<open>setLatestSequenceNumber\<close>: \<open>latest_ok\<close>
  says of an event that the value it gives the cursor, if it gives one, is at least
  \<open>offset\<close>, and \<open>floor_inv\<close> that the cell of the factory and the cell of every protocol
  hold at least \<open>offset\<close>.
\<close>

definition latest_ok :: "config \<Rightarrow> event \<Rightarrow> bool" where
  "latest_ok cfg ev = (case ev of Set_latest n \<Rightarrow> smpp_offset cfg \<le> n | _ \<Rightarrow> True)"

definition floor_inv :: "config \<Rightarrow> world \<Rightarrow> bool" where
  "floor_inv cfg w \<longleftrightarrow>
     f_config (the_factory w) = cfg
     \<and> smpp_offset cfg \<le> cells (common w) (f_seq (the_factory w))
     \<and> list_all (\<lambda>e. inc e = smpp_increment cfg \<and> smpp_offset cfg \<le> cells (common w) (seq e))
          (engines w)"

section \<open>Example values used to evaluate the model\<close>

definition example_config :: config where
  "example_config =
     \<lparr>system_id = ''vumi'', host = ''localhost'', port = ''2775'',
      smpp_increment = 10, smpp_offset = 3\<rparr>"

definition empty_shared :: shared where
  "empty_shared =
     \<lparr>cells = (\<lambda>_. 0), next_cell = 0, r_lists = (\<lambda>_. []), r_strings = Map.empty,
      wire = [], calls = []\<rparr>"

definition example_engine :: "conn_state \<Rightarrow> engine" where
  "example_engine cs =
     \<lparr>state = cs, seq = 0, inc = 10, datastream = [], defaults = Map.empty,
      lc_enquire = False, r_prefix = ''vumi@localhost:2775''\<rparr>"

definition example_frame :: bytes where
  "example_frame =
     [CHR 0x00, CHR 0x00, CHR 0x00, CHR 0x10, CHR 0x00, CHR 0x00, CHR 0x00, CHR 0x15,
      CHR 0x00, CHR 0x00, CHR 0x00, CHR 0x00, CHR 0x00, CHR 0x00, CHR 0x00, CHR 0x07]"

definition example_pdu :: pdu where
  "example_pdu =
     \<lparr>command_id = ''enquire_link'', command_status = ''ESME_ROK'', sequence_number = 7,
      mandatory_parameters = None, optional_parameters = []\<rparr>"

definition bind_resp_frame :: bytes where
  "bind_resp_frame =
     [CHR 0x00, CHR 0x00, CHR 0x00, CHR 0x11, CHR 0x80, CHR 0x00, CHR 0x00, CHR 0x09,
      CHR 0x00, CHR 0x00, CHR 0x00, CHR 0x00, CHR 0x00, CHR 0x00, CHR 0x00, CHR 0x03,
      CHR 0x00]"

definition bind_resp_pdu :: pdu where
  "bind_resp_pdu =
     \<lparr>command_id = ''bind_transceiver_resp'', command_status = ''ESME_ROK'',
      sequence_number = 3, mandatory_parameters = Some [''system_id'' \<mapsto> PStr []],
      optional_parameters = []\<rparr>"

text \<open>A library for the examples: its codec knows two frames, its \<open>str.decode\<close> the
  codecs \<open>latin1\<close> and \<open>ascii\<close>, and its inspector never finds multipart markers.\<close>

definition example_library :: "(unit, unit, unit) library" where
  "example_library =
     \<lparr>unpack_pdu = (\<lambda>data. if data = example_frame then Inr example_pdu
                           else if data = bind_resp_frame then Inr bind_resp_pdu
                           else Inl PduError),
      str_decode = (\<lambda>codec bs.
         if codec = ''latin1'' then Inr (map of_char bs)
         else if codec = ''ascii'' then
           (if list_all (\<lambda>c. (of_char c :: nat) < 128) bs then Inr (map of_char bs)
            else Inl UnicodeDecodeError)
         else Inl UnicodeDecodeError),
      detect_multipart = (\<lambda>p. None),
      multipart_key = (\<lambda>d. []),
      json_loads = (\<lambda>t. ()),
      json_dumps = (\<lambda>j. ''null''),
      MultipartMessage = (\<lambda>j. ()),
      add_pdu = (\<lambda>m p. ()),
      get_completed = (\<lambda>m. None),
      get_array = (\<lambda>m. ())\<rparr>"

definition undersized_frame :: bytes where
  "undersized_frame =
     [CHR 0x00, CHR 0x00, CHR 0x00, CHR 0x05, CHR 0x00, CHR 0x00, CHR 0x00, CHR 0x15,
      CHR 0x00, CHR 0x00, CHR 0x00, CHR 0x00, CHR 0x00, CHR 0x00, CHR 0x00, CHR 0x07]"

definition oversized_frame :: bytes where
  "oversized_frame =
     [CHR 0xFF, CHR 0xFF, CHR 0xFF, CHR 0xFF, CHR 0x00, CHR 0x00, CHR 0x00, CHR 0x15,
      CHR 0x00, CHR 0x00, CHR 0x00, CHR 0x00, CHR 0x00, CHR 0x00, CHR 0x00, CHR 0x07]"

definition submit_resp_pdu :: pdu where
  "submit_resp_pdu =
     \<lparr>command_id = ''submit_sm_resp'', command_status = ''ESME_ROK'', sequence_number = 13,
      mandatory_parameters = Some [''message_id'' \<mapsto> PStr ''ABC123''],
      optional_parameters = []\<rparr>"

definition plain_pdu :: pdu where
  "plain_pdu =
     \<lparr>command_id = ''deliver_sm'', command_status = ''ESME_ROK'', sequence_number = 9,
      mandatory_parameters =
        Some [''short_message'' \<mapsto> PStr ''hello'', ''data_coding'' \<mapsto> PInt 3,
              ''destination_addr'' \<mapsto> PStr ''27831234567'',
              ''source_addr'' \<mapsto> PStr ''27820000000''],
      optional_parameters = []\<rparr>"

definition rejected_pdu :: pdu where
  "rejected_pdu = plain_pdu\<lparr>command_status := ''ESME_RSYSERR''\<rparr>"

definition example_factory :: factory where
  "example_factory =
     \<lparr>f_config = example_config, f_seq = 0,
      f_defaults = [''host'' \<mapsto> PStr ''127.0.0.1'', ''port'' \<mapsto> PInt 2775,
                    ''dest_addr_ton'' \<mapsto> PInt 0, ''dest_addr_npi'' \<mapsto> PInt 0],
      initialDelay = 30, maxDelay = 45\<rparr>"

definition example_world :: world where
  "example_world =
     \<lparr>the_factory = example_factory, engines = [],
      common = empty_shared\<lparr>cells := (\<lambda>_. 0)(0 := 3), next_cell := Suc 0\<rparr>\<rparr>"


definition example_restore :: "event list" where
  "example_restore = [Set_latest 103, Build, Made 0, Data 0 bind_resp_frame]"

definition example_reset :: "event list" where
  "example_reset = [Set_latest (- 20), Build, Made 0, Data 0 bind_resp_frame]"

section \<open>Verified properties\<close>

subsection \<open>Construction of the factory\<close>

text \<open>
  Claim C9.  Construction of the factory raises exactly when the configuration violates
  \<open>increment \<ge> offset \<ge> 1\<close>, that is when \<open>smpp_increment < smpp_offset\<close> or
  \<open>smpp_increment < 1\<close> or \<open>smpp_offset < 1\<close>; on every other configuration it
  succeeds, and the cursor cell it allocates holds \<open>smpp_offset\<close>.  (The source raises
  a plain \<open>Exception\<close> whose message names the relation that is violated; a failed
  construction leaves the shared state as it was.)
\<close>

theorem C9_construction_validates:
  "((\<exists>msg. EsmeTransceiverFactory_init cfg sh = (Inl (Exception msg), sh)) \<longleftrightarrow>
      (smpp_increment cfg < smpp_offset cfg \<or> smpp_increment cfg < 1 \<or> smpp_offset cfg < 1))
   \<and> ((\<exists>f sh'. EsmeTransceiverFactory_init cfg sh = (Inr f, sh') \<and> f_config f = cfg
          \<and> cells sh' (f_seq f) = smpp_offset cfg) \<longleftrightarrow>
      (smpp_offset cfg \<le> smpp_increment cfg \<and> 1 \<le> smpp_offset cfg))"
  by (auto simp: EsmeTransceiverFactory_init_def)

theorem C9_construction_validates_witness:
  "(\<exists>f sh'. EsmeTransceiverFactory_init example_config empty_shared = (Inr f, sh')
      \<and> f_config f = example_config \<and> cells sh' (f_seq f) = 3)
   \<and> (\<exists>msg. EsmeTransceiverFactory_init (example_config\<lparr>smpp_offset := 11\<rparr>) empty_shared
          = (Inl (Exception msg), empty_shared))"
  using C9_construction_validates [of example_config empty_shared]
    C9_construction_validates [of "example_config\<lparr>smpp_offset := 11\<rparr>" empty_shared]
  by (simp add: example_config_def)

subsection \<open>The sequence cursor\<close>

text \<open>
  Claim C2, as amended.  \<open>getSeq\<close> returns the current value of the cursor cell and
  \<open>incSeq\<close> adds exactly \<open>inc\<close> to that cell, whatever its size: the source has no
  wrap at \<open>2^31 - 1\<close> (Python integers do not overflow), so the cursor keeps growing.
  Every other cell and the protocol instance itself are unchanged.
\<close>

theorem C2_cursor_increments_without_wrap:
  "getSeq (incSeq s) = getSeq s + inc (fst s)
   \<and> fst (incSeq s) = fst s
   \<and> (\<forall>a. a = seq (fst s) \<or> cells (snd (incSeq s)) a = cells (snd s) a)"
  by (simp add: getSeq_def incSeq_def)

theorem C2_cursor_increments_without_wrap_witness:
  "getSeq (incSeq (example_engine BOUND_TRX, empty_shared\<lparr>cells := (\<lambda>_. 23)\<rparr>)) = 33"
proof -
  have "getSeq (example_engine BOUND_TRX, empty_shared\<lparr>cells := (\<lambda>_. 23)\<rparr>) = 23"
    by (simp add: getSeq_def)
  with C2_cursor_increments_without_wrap
          [of "(example_engine BOUND_TRX, empty_shared\<lparr>cells := (\<lambda>_. 23)\<rparr>)"]
  show ?thesis by (simp add: example_engine_def)
qed

text \<open>
  The claim as written fails: with increment 1 and offset 1 the cursor at \<open>2^31 - 1\<close>
  moves on to \<open>2^31\<close>, not back to the offset.
\<close>

theorem C2_wrap_counterexample:
  "getSeq ((example_engine BOUND_TRX)\<lparr>inc := 1\<rparr>, empty_shared\<lparr>cells := (\<lambda>_. 2147483647)\<rparr>)
     = 2 ^ 31 - 1
   \<and> getSeq (incSeq ((example_engine BOUND_TRX)\<lparr>inc := 1\<rparr>,
                      empty_shared\<lparr>cells := (\<lambda>_. 2147483647)\<rparr>)) = 2 ^ 31
   \<and> getSeq (incSeq ((example_engine BOUND_TRX)\<lparr>inc := 1\<rparr>,
                      empty_shared\<lparr>cells := (\<lambda>_. 2147483647)\<rparr>)) \<noteq> 1"
  by (simp add: getSeq_def incSeq_def example_engine_def empty_shared_def)

subsection \<open>The status classifier\<close>

text \<open>
  Claim C6.  The classifier is total and yields one of the six fault classes for every
  status string, by the table of 48 rows: \<open>ESME_ROK\<close> is \<open>ok\<close>; \<open>ESME_RSUBMITFAIL\<close>,
  \<open>ESME_RINVNUMMSGS\<close>, \<open>ESME_RDELIVERYFAILURE\<close>, \<open>ESME_RUNKNOWNERR\<close> and
  \<open>ESME_RX_T_APPN\<close> are \<open>mess_tempfault\<close>; \<open>ESME_RINVBNDSTS\<close> and \<open>ESME_RALYBND\<close> are
  \<open>conn_tempfault\<close>; \<open>ESME_RSYSERR\<close>, \<open>ESME_RBINDFAIL\<close>, \<open>ESME_RINVPASWD\<close>,
  \<open>ESME_RINVSYSID\<close>, \<open>ESME_RINVSERTYP\<close> and \<open>ESME_RINVSYSTYP\<close> are \<open>conn_permfault\<close>;
  \<open>ESME_RMSGQFUL\<close> and \<open>ESME_RTHROTTLED\<close> are \<open>conn_throttle\<close>; the 32 statuses of
  invalid fields and failed requests named below, the rest of the table, are
  \<open>mess_permfault\<close>; every other string is \<open>ok\<close>.
\<close>

theorem C6_classifier_table:
  "command_status_dispatch s =
     (if s = ''ESME_ROK'' then ok
      else if s \<in> set [''ESME_RSUBMITFAIL'', ''ESME_RINVNUMMSGS'', ''ESME_RDELIVERYFAILURE'',
                        ''ESME_RUNKNOWNERR'', ''ESME_RX_T_APPN''] then mess_tempfault
      else if s \<in> set [''ESME_RINVBNDSTS'', ''ESME_RALYBND''] then conn_tempfault
      else if s \<in> set [''ESME_RSYSERR'', ''ESME_RBINDFAIL'', ''ESME_RINVPASWD'',
                        ''ESME_RINVSYSID'', ''ESME_RINVSERTYP'', ''ESME_RINVSYSTYP'']
        then conn_permfault
      else if s \<in> set [''ESME_RMSGQFUL'', ''ESME_RTHROTTLED''] then conn_throttle
      else if s \<in> set [''ESME_RINVMSGLEN'', ''ESME_RINVCMDLEN'', ''ESME_RINVCMDID'',
                        ''ESME_RINVPRTFLG'', ''ESME_RINVREGDLVFLG'', ''ESME_RINVSRCADR'',
                        ''ESME_RINVDSTADR'', ''ESME_RINVMSGID'', ''ESME_RCANCELFAIL'',
                        ''ESME_RREPLACEFAIL'', ''ESME_RINVNUMDESTS'', ''ESME_RINVDLNAME'',
                        ''ESME_RINVDESTFLAG'', ''ESME_RINVSUBREP'', ''ESME_RINVESMCLASS'',
                        ''ESME_RCNTSUBDL'', ''ESME_RINVSRCTON'', ''ESME_RINVSRCNPI'',
                        ''ESME_RINVDSTTON'', ''ESME_RINVDSTNPI'', ''ESME_RINVREPFLAG'',
                        ''ESME_RINVSCHED'', ''ESME_RINVEXPIRY'', ''ESME_RINVDFTMSGID'',
                        ''ESME_RX_P_APPN'', ''ESME_RX_R_APPN'', ''ESME_RQUERYFAIL'',
                        ''ESME_RINVOPTPARSTREAM'', ''ESME_ROPTPARNOTALLWD'', ''ESME_RINVPARLEN'',
                        ''ESME_RMISSINGOPTPARAM'', ''ESME_RINVOPTPARAMVAL''] then mess_permfault
      else ok)"
  by (simp add: command_status_dispatch_def ESME_command_status_dispatch_map_def)

theorem C6_classifier_table_witness:
  "command_status_dispatch ''ESME_RTHROTTLED'' = conn_throttle
   \<and> command_status_dispatch ''ESME_RINVMSGLEN'' = mess_permfault
   \<and> command_status_dispatch ''ESME_NOSUCHSTATUS'' = ok"
  using C6_classifier_table [of "''ESME_RTHROTTLED''"] C6_classifier_table [of "''ESME_RINVMSGLEN''"]
    C6_classifier_table [of "''ESME_NOSUCHSTATUS''"]
  by simp

lemma command_length_take: "4 \<le> i \<Longrightarrow> command_length (take i B) = command_length B"
  by (simp add: command_length_def min_def)

lemma popData_prefix:
  assumes "command_length B = length B" and "i < length B" and "datastream e = take i B"
  shows "popData e = (None, e)"
proof (cases "16 \<le> i")
  case True
  then have "command_length (take i B) = length B"
    using assms(1) by (simp add: command_length_take)
  with assms True show ?thesis by (simp add: popData_def)
next
  case False
  with assms show ?thesis by (simp add: popData_def)
qed

lemma popData_whole:
  assumes "16 \<le> length B" and "command_length B = length B" and "datastream e = B"
  shows "popData e = (Some B, e\<lparr>datastream := []\<rparr>)"
  using assms by (simp add: popData_def)

lemma enquire_link_engine: "fst (snd (enquire_link kwargs s)) = fst s"
  by (simp add: enquire_link_def Let_def incSeq_def sendPDU_def)

lemma handle_pdu_datastream:
  "datastream (fst (snd (handle_pdu lib p s))) = datastream (fst s)"
  by (simp add: handle_pdu_def handle_bind_transceiver_resp_def handle_submit_sm_resp_def
      handle_submit_multi_resp_def handle_deliver_sm_def handle_enquire_link_def
      handle_enquire_link_resp_def sendPDU_def Let_def enquire_link_engine split: sum.splits prod.splits)

lemma handleData_datastream:
  "datastream (fst (snd (handleData lib d s))) = datastream (fst s)"
  by (simp add: handleData_def handle_pdu_datastream split: sum.splits)

lemma drain_empty: "datastream (fst s) = [] \<Longrightarrow> drain lib s = Some (Inr (), s)"
  by (subst drain.simps) (simp add: popData_def)

lemma drain_prefix:
  assumes "command_length B = length B" and "i < length B" and "datastream (fst s) = take i B"
  shows "drain lib s = Some (Inr (), s)"
  using popData_prefix [OF assms(1,2), of "fst s"] assms(3)
  by (subst drain.simps) simp

lemma drain_whole:
  assumes "16 \<le> length B" and "command_length B = length B" and "datastream e = B"
  shows "drain lib (e, sh) = Some (handleData lib B (e\<lparr>datastream := []\<rparr>, sh))"
proof -
  obtain r s' where h: "handleData lib B (e\<lparr>datastream := []\<rparr>, sh) = (r, s')"
    by (cases "handleData lib B (e\<lparr>datastream := []\<rparr>, sh)")
  have ds: "datastream (fst s') = []"
    using handleData_datastream [of lib B "(e\<lparr>datastream := []\<rparr>, sh)"] h by simp
  show ?thesis
  proof (cases r)
    case (Inl err)
    with h popData_whole [OF assms] show ?thesis
      by (subst drain.simps) simp
  next
    case (Inr u)
    with h popData_whole [OF assms] drain_empty [OF ds, of lib] show ?thesis
      by (subst drain.simps) simp
  qed
qed

subsection \<open>The framer\<close>

text \<open>
  Claim C4.  \<open>popData\<close> pops a frame exactly when the buffer holds at least 16 bytes and
  at least \<open>command_length\<close> bytes, the number in its first four bytes; the frame is the
  first \<open>command_length\<close> bytes, which leave the buffer, and otherwise the buffer is
  untouched.  So for a PDU \<open>B\<close> (at least 16 bytes, its length in its prefix) fed to a
  protocol with an empty buffer in two pieces \<open>B[:i]\<close> and \<open>B[i:]\<close>, at any \<open>i\<close>, the
  two calls of \<open>dataReceived\<close> return and hand exactly \<open>B\<close> to \<open>handleData\<close>, once:
  for \<open>i < len(B)\<close> the first call only buffers and the second handles \<open>B\<close>; for
  \<open>i \<ge> len(B)\<close> the first call handles \<open>B\<close>, leaves the buffer empty and the second,
  with no bytes, handles nothing.
\<close>

theorem C4_framer_split:
  assumes "16 \<le> length B" and "command_length B = length B" and "datastream e = []"
  shows "(fst (popData x) \<noteq> None) =
           (16 \<le> length (datastream x) \<and> command_length (datastream x) \<le> length (datastream x))
    \<and> (fst (popData x) = Some d \<longrightarrow>
          d = take (command_length (datastream x)) (datastream x)
          \<and> datastream (snd (popData x)) = drop (command_length (datastream x)) (datastream x))
    \<and> (fst (popData x) = None \<longrightarrow> snd (popData x) = x)
    \<and> (i < length B \<longrightarrow>
          dataReceived lib (take i B) (e, sh) = Some (Inr (), (e\<lparr>datastream := take i B\<rparr>, sh))
          \<and> dataReceived lib (drop i B) (e\<lparr>datastream := take i B\<rparr>, sh)
              = Some (handleData lib B (e, sh)))
    \<and> (length B \<le> i \<longrightarrow>
          dataReceived lib (take i B) (e, sh) = Some (handleData lib B (e, sh))
          \<and> datastream (fst (snd (handleData lib B (e, sh)))) = []
          \<and> (\<forall>s. datastream (fst s) = [] \<longrightarrow> dataReceived lib (drop i B) s = Some (Inr (), s)))"
proof -
  have e: "e\<lparr>datastream := []\<rparr> = e" using assms(3) by simp
  have p1: "(fst (popData x) \<noteq> None) =
           (16 \<le> length (datastream x) \<and> command_length (datastream x) \<le> length (datastream x))"
    by (simp add: popData_def)
  have p2: "fst (popData x) = Some d \<longrightarrow>
          d = take (command_length (datastream x)) (datastream x)
          \<and> datastream (snd (popData x)) = drop (command_length (datastream x)) (datastream x)"
    by (auto simp: popData_def split: if_splits)
  have p3: "fst (popData x) = None \<longrightarrow> snd (popData x) = x"
    by (simp add: popData_def)
  have short: "i < length B \<longrightarrow>
          dataReceived lib (take i B) (e, sh) = Some (Inr (), (e\<lparr>datastream := take i B\<rparr>, sh))
          \<and> dataReceived lib (drop i B) (e\<lparr>datastream := take i B\<rparr>, sh)
              = Some (handleData lib B (e, sh))"
  proof
    assume i: "i < length B"
    have a: "dataReceived lib (take i B) (e, sh) = Some (Inr (), (e\<lparr>datastream := take i B\<rparr>, sh))"
      using drain_prefix [OF assms(2) i, of "(e\<lparr>datastream := take i B\<rparr>, sh)" lib] assms(3)
      by (simp add: dataReceived_def)
    have b: "dataReceived lib (drop i B) (e\<lparr>datastream := take i B\<rparr>, sh)
              = Some (handleData lib B (e, sh))"
      using drain_whole [OF assms(1,2), of "e\<lparr>datastream := B\<rparr>" lib sh] e
      by (simp add: dataReceived_def)
    from a b show "dataReceived lib (take i B) (e, sh) = Some (Inr (), (e\<lparr>datastream := take i B\<rparr>, sh))
          \<and> dataReceived lib (drop i B) (e\<lparr>datastream := take i B\<rparr>, sh)
              = Some (handleData lib B (e, sh))" by simp
  qed
  have long: "length B \<le> i \<longrightarrow>
          dataReceived lib (take i B) (e, sh) = Some (handleData lib B (e, sh))
          \<and> datastream (fst (snd (handleData lib B (e, sh)))) = []
          \<and> (\<forall>s. datastream (fst s) = [] \<longrightarrow> dataReceived lib (drop i B) s = Some (Inr (), s))"
  proof
    assume i: "length B \<le> i"
    have a: "dataReceived lib (take i B) (e, sh) = Some (handleData lib B (e, sh))"
      using drain_whole [OF assms(1,2), of "e\<lparr>datastream := B\<rparr>" lib sh] e i assms(3)
      by (simp add: dataReceived_def)
    have b: "datastream (fst (snd (handleData lib B (e, sh)))) = []"
      using handleData_datastream [of lib B "(e, sh)"] assms(3) by simp
    have c: "\<forall>s. datastream (fst s) = [] \<longrightarrow> dataReceived lib (drop i B) s = Some (Inr (), s)"
      using i drain_empty [of _ lib] by (simp add: dataReceived_def)
    from a b c show "dataReceived lib (take i B) (e, sh) = Some (handleData lib B (e, sh))
          \<and> datastream (fst (snd (handleData lib B (e, sh)))) = []
          \<and> (\<forall>s. datastream (fst s) = [] \<longrightarrow> dataReceived lib (drop i B) s = Some (Inr (), s))"
      by simp
  qed
  from p1 p2 p3 short long show ?thesis by simp
qed

lemma example_frame_length: "16 \<le> length example_frame"
  by (simp add: example_frame_def)

lemma example_frame_command_length: "command_length example_frame = length example_frame"
  by (simp add: example_frame_def command_length_def)

theorem C4_framer_split_witness:
  "16 \<le> length example_frame \<and> command_length example_frame = length example_frame
   \<and> dataReceived example_library (take 5 example_frame) (example_engine OPEN, empty_shared)
       = Some (Inr (), ((example_engine OPEN)\<lparr>datastream := take 5 example_frame\<rparr>, empty_shared))
   \<and> dataReceived example_library (drop 5 example_frame)
         ((example_engine OPEN)\<lparr>datastream := take 5 example_frame\<rparr>, empty_shared)
       = Some (Inr (), (example_engine OPEN,
                empty_shared\<lparr>wire := [EnquireLinkResp 7], calls := [ErrorHandler ok example_pdu]\<rparr>))"
proof -
  have d: "datastream (example_engine OPEN) = []"
    by (simp add: example_engine_def)
  have i: "5 < length example_frame"
    by (simp add: example_frame_def)
  have h: "handleData example_library example_frame (example_engine OPEN, empty_shared)
       = (Inr (), (example_engine OPEN,
                empty_shared\<lparr>wire := [EnquireLinkResp 7], calls := [ErrorHandler ok example_pdu]\<rparr>))"
    by (simp add: handleData_def example_library_def handle_pdu_def example_pdu_def
        handle_enquire_link_def handle_enquire_link_resp_def sendPDU_def invoke_def
        command_status_dispatch_def ESME_command_status_dispatch_map_def empty_shared_def)
  from C4_framer_split [OF example_frame_length example_frame_command_length d,
      of _ _ 5 example_library empty_shared] i h
  show ?thesis
    by (simp add: example_frame_length example_frame_command_length)
qed

text \<open>
  Claim C5, as amended.  The framer checks neither a minimum nor a maximum of the
  length prefix and raises nothing.  With 16 bytes or more in the buffer, a prefix below
  16 is popped as a frame of that many bytes.  A prefix larger than the buffer, however
  large, pops nothing: \<open>popData\<close> returns \<open>None\<close>, the receive loop returns normally and
  the bytes stay buffered.  The connection state is left as it was in every case.
\<close>

theorem C5_framer_has_no_length_check:
  "state (snd (popData e)) = state e
   \<and> (16 \<le> length (datastream e) \<and> command_length (datastream e) < 16 \<longrightarrow>
        popData e = (Some (take (command_length (datastream e)) (datastream e)),
                     e\<lparr>datastream := drop (command_length (datastream e)) (datastream e)\<rparr>))
   \<and> (length (datastream e) < command_length (datastream e) \<longrightarrow>
        popData e = (None, e) \<and> drain lib (e, sh) = Some (Inr (), (e, sh)))"
proof -
  have a: "state (snd (popData e)) = state e"
    by (simp add: popData_def)
  have b: "16 \<le> length (datastream e) \<and> command_length (datastream e) < 16 \<longrightarrow>
        popData e = (Some (take (command_length (datastream e)) (datastream e)),
                     e\<lparr>datastream := drop (command_length (datastream e)) (datastream e)\<rparr>)"
    by (simp add: popData_def)
  have c: "length (datastream e) < command_length (datastream e) \<longrightarrow>
        popData e = (None, e) \<and> drain lib (e, sh) = Some (Inr (), (e, sh))"
  proof
    assume l: "length (datastream e) < command_length (datastream e)"
    then have p: "popData e = (None, e)" by (simp add: popData_def)
    then have "drain lib (e, sh) = Some (Inr (), (e, sh))"
      by (subst drain.simps) simp
    with p show "popData e = (None, e) \<and> drain lib (e, sh) = Some (Inr (), (e, sh))" by simp
  qed
  from a b c show ?thesis by simp
qed

theorem C5_framer_has_no_length_check_witness:
  "16 \<le> length undersized_frame \<and> command_length undersized_frame < 16
   \<and> popData ((example_engine BOUND_TRX)\<lparr>datastream := undersized_frame\<rparr>)
       = (Some [CHR 0x00, CHR 0x00, CHR 0x00, CHR 0x05, CHR 0x00],
          (example_engine BOUND_TRX)\<lparr>datastream := drop 5 undersized_frame\<rparr>)"
proof -
  have l: "16 \<le> length undersized_frame" by (simp add: undersized_frame_def)
  have c: "command_length undersized_frame = 5"
    by (simp add: undersized_frame_def command_length_def)
  have t: "take 5 undersized_frame = [CHR 0x00, CHR 0x00, CHR 0x00, CHR 0x05, CHR 0x00]"
    by (simp add: undersized_frame_def)
  from C5_framer_has_no_length_check [of "(example_engine BOUND_TRX)\<lparr>datastream := undersized_frame\<rparr>"] l c t
  show ?thesis by simp
qed

text \<open>
  The claim as written fails at both ends: a prefix of 5 is popped as a five byte
  frame, and with a prefix of \<open>2^32 - 1\<close> the call of \<open>dataReceived\<close> returns normally,
  the protocol still bound and the sixteen bytes in its buffer.
\<close>

theorem C5_frame_error_counterexample:
  "command_length undersized_frame = 5
   \<and> popData ((example_engine BOUND_TRX)\<lparr>datastream := undersized_frame\<rparr>)
       = (Some [CHR 0x00, CHR 0x00, CHR 0x00, CHR 0x05, CHR 0x00],
          (example_engine BOUND_TRX)\<lparr>datastream := drop 5 undersized_frame\<rparr>)
   \<and> command_length oversized_frame = 4294967295
   \<and> dataReceived example_library oversized_frame (example_engine BOUND_TRX, empty_shared)
       = Some (Inr (), ((example_engine BOUND_TRX)\<lparr>datastream := oversized_frame\<rparr>, empty_shared))
   \<and> state (example_engine BOUND_TRX) = BOUND_TRX"
proof -
  have c: "command_length undersized_frame = 5"
    by (simp add: undersized_frame_def command_length_def)
  have p: "popData ((example_engine BOUND_TRX)\<lparr>datastream := undersized_frame\<rparr>)
       = (Some [CHR 0x00, CHR 0x00, CHR 0x00, CHR 0x05, CHR 0x00],
          (example_engine BOUND_TRX)\<lparr>datastream := drop 5 undersized_frame\<rparr>)"
    by (simp add: popData_def c) (simp add: undersized_frame_def)
  have o: "command_length oversized_frame = 4294967295"
    by (simp add: oversized_frame_def command_length_def)
  have q: "popData ((example_engine BOUND_TRX)\<lparr>datastream := oversized_frame\<rparr>)
       = (None, (example_engine BOUND_TRX)\<lparr>datastream := oversized_frame\<rparr>)"
    by (simp add: popData_def o) (simp add: oversized_frame_def)
  have d: "dataReceived example_library oversized_frame (example_engine BOUND_TRX, empty_shared)
       = Some (Inr (), ((example_engine BOUND_TRX)\<lparr>datastream := oversized_frame\<rparr>, empty_shared))"
  proof -
    have "drain example_library ((example_engine BOUND_TRX)\<lparr>datastream := oversized_frame\<rparr>, empty_shared)
       = Some (Inr (), ((example_engine BOUND_TRX)\<lparr>datastream := oversized_frame\<rparr>, empty_shared))"
      by (subst drain.simps) (simp add: q)
    then show ?thesis by (simp add: dataReceived_def example_engine_def)
  qed
  from c p o d show ?thesis by (simp add: example_engine_def)
qed

subsection \<open>Operations outside the bound states\<close>

text \<open>
  Claim C8.  In every state other than \<open>BOUND_TRX\<close> and \<open>BOUND_TX\<close>, each of
  \<open>submit_sm\<close>, \<open>submit_multi\<close>, \<open>query_sm\<close> and \<open>enquire_link\<close> returns 0, raises
  nothing and leaves everything as it was: no PDU is written, the cursor and Redis are
  untouched.
\<close>

theorem C8_unbound_calls_return_zero:
  "state (fst s) \<noteq> BOUND_TRX \<and> state (fst s) \<noteq> BOUND_TX \<Longrightarrow>
     submit_sm kwargs s = (Inr 0, s)
     \<and> submit_multi dest_address kwargs s = (Inr 0, s)
     \<and> query_sm message_id source_addr kwargs s = (Inr 0, s)
     \<and> enquire_link kwargs s = (Inr 0, s)"
  by (simp add: submit_sm_def submit_multi_def query_sm_def enquire_link_def bound_def)

theorem C8_unbound_calls_return_zero_witness:
  "state (example_engine OPEN) \<noteq> BOUND_TRX \<and> state (example_engine OPEN) \<noteq> BOUND_TX
   \<and> submit_sm Map.empty (example_engine OPEN, empty_shared)
        = (Inr 0, (example_engine OPEN, empty_shared))
   \<and> submit_multi [ItemStr ''27831234567''] Map.empty (example_engine OPEN, empty_shared)
        = (Inr 0, (example_engine OPEN, empty_shared))
   \<and> query_sm (PStr ''ABC123'') (PStr ''27831234567'') Map.empty (example_engine OPEN, empty_shared)
        = (Inr 0, (example_engine OPEN, empty_shared))
   \<and> enquire_link Map.empty (example_engine OPEN, empty_shared)
        = (Inr 0, (example_engine OPEN, empty_shared))"
proof -
  have h: "state (fst (example_engine OPEN, empty_shared)) \<noteq> BOUND_TRX
     \<and> state (fst (example_engine OPEN, empty_shared)) \<noteq> BOUND_TX"
    by (simp add: example_engine_def)
  from C8_unbound_calls_return_zero [OF h] h show ?thesis by simp
qed

subsection \<open>The unacked list\<close>

lemma submit_sm_bound:
  assumes "bound (fst s)"
  shows "fst (snd (submit_sm kwargs s)) = fst s"
    and "r_lists (snd (snd (submit_sm kwargs s)))
           = (r_lists (snd s))(unacked_key (fst s) := PInt 1 # r_lists (snd s) (unacked_key (fst s)))"
  using assms
  by (simp_all add: submit_sm_def Let_def incSeq_def sendPDU_def lpush_def)

lemma handle_submit_sm_resp_pdu:
  assumes "command_id p = ''submit_sm_resp''"
  shows "fst (snd (handle_pdu lib p s)) = fst s"
    and "r_lists (snd (snd (handle_pdu lib p s)))
           = (r_lists (snd s))(unacked_key (fst s) := tl (r_lists (snd s) (unacked_key (fst s))))"
  using assms
  by (simp_all add: handle_pdu_def Let_def handle_submit_sm_resp_def handle_submit_multi_resp_def
      handle_enquire_link_resp_def invoke_def lpop_def)

lemma submit_sm_each_bound:
  "bound (fst s) \<Longrightarrow>
     fst (submit_sm_each kws s) = fst s
     \<and> r_lists (snd (submit_sm_each kws s))
          = (r_lists (snd s))(unacked_key (fst s) :=
               replicate (length kws) (PInt 1) @ r_lists (snd s) (unacked_key (fst s)))"
proof (induction kws arbitrary: s)
  case Nil
  then show ?case by simp
next
  case (Cons kw kws)
  have b: "bound (fst (snd (submit_sm kw s)))"
    using Cons.prems by (simp add: submit_sm_bound)
  show ?case
    using Cons.IH [OF b] Cons.prems
    by (simp add: submit_sm_bound replicate_app_Cons_same fun_eq_iff)
qed

lemma handle_each_resp:
  "\<forall>p\<in>set ps. command_id p = ''submit_sm_resp'' \<Longrightarrow>
     fst (handle_each lib ps s) = fst s
     \<and> r_lists (snd (handle_each lib ps s))
          = (r_lists (snd s))(unacked_key (fst s) :=
               drop (length ps) (r_lists (snd s) (unacked_key (fst s))))"
proof (induction ps arbitrary: s)
  case Nil
  then show ?case by simp
next
  case (Cons p ps)
  have c: "command_id p = ''submit_sm_resp''" using Cons.prems by simp
  have r: "\<forall>p\<in>set ps. command_id p = ''submit_sm_resp''" using Cons.prems by simp
  show ?case
    using Cons.IH [OF r, of "snd (handle_pdu lib p s)"]
    by (simp add: handle_submit_sm_resp_pdu [OF c] drop_Suc drop_tl fun_eq_iff)
qed

lemma submit_multi_lists: "r_lists (snd (snd (submit_multi da kw s))) = r_lists (snd s)"
  by (simp add: submit_multi_def Let_def incSeq_def sendPDU_def split: sum.splits)

text \<open>
  Claim C1.  On a bound protocol, \<open>k\<close> calls of \<open>submit_sm\<close> followed by the handling of
  \<open>k\<close> \<open>submit_sm_resp\<close> PDUs leave every Redis list, the unacked list among them, as
  it was before; so the unacked list that was empty is empty again and its length is 0.
  Each successful \<open>submit_sm\<close> makes the list one longer, each \<open>submit_sm_resp\<close> handled
  takes one entry off it (none off an empty list), and \<open>submit_multi\<close> leaves the lists
  alone.
\<close>

theorem C1_unacked_returns_to_start:
  assumes "state (fst s) = BOUND_TRX \<or> state (fst s) = BOUND_TX"
    and "length kws = k" and "length ps = k"
    and "\<forall>p\<in>set ps. command_id p = ''submit_sm_resp''"
  shows "r_lists (snd (handle_each lib ps (submit_sm_each kws s))) = r_lists (snd s)
    \<and> (llen (unacked_key (fst s)) (snd s) = 0 \<longrightarrow>
         llen (unacked_key (fst s)) (snd (handle_each lib ps (submit_sm_each kws s))) = 0)
    \<and> llen (unacked_key (fst s)) (snd (snd (submit_sm kwargs s)))
         = llen (unacked_key (fst s)) (snd s) + 1
    \<and> (\<forall>p. command_id p = ''submit_sm_resp'' \<longrightarrow>
         llen (unacked_key (fst s)) (snd (snd (handle_pdu lib p s)))
           = llen (unacked_key (fst s)) (snd s) - 1)
    \<and> r_lists (snd (snd (submit_multi dest_address kwargs s))) = r_lists (snd s)"
proof -
  have b: "bound (fst s)" using assms(1) by (auto simp: bound_def)
  have a: "r_lists (snd (handle_each lib ps (submit_sm_each kws s))) = r_lists (snd s)"
    using handle_each_resp [OF assms(4), of lib "submit_sm_each kws s"]
      submit_sm_each_bound [OF b, of kws] assms(2,3)
    by simp
  have c: "llen (unacked_key (fst s)) (snd (snd (submit_sm kwargs s)))
         = llen (unacked_key (fst s)) (snd s) + 1"
    by (simp add: llen_def submit_sm_bound [OF b])
  have d: "\<forall>p. command_id p = ''submit_sm_resp'' \<longrightarrow>
         llen (unacked_key (fst s)) (snd (snd (handle_pdu lib p s)))
           = llen (unacked_key (fst s)) (snd s) - 1"
    by (simp add: llen_def handle_submit_sm_resp_pdu)
  from a c d submit_multi_lists [of dest_address kwargs s] show ?thesis
    by (simp add: llen_def)
qed

theorem C1_unacked_returns_to_start_witness:
  "(state (fst (example_engine BOUND_TRX, empty_shared)) = BOUND_TRX
      \<or> state (fst (example_engine BOUND_TRX, empty_shared)) = BOUND_TX)
   \<and> llen (unacked_key (example_engine BOUND_TRX))
        (snd (submit_sm_each [Map.empty, Map.empty] (example_engine BOUND_TRX, empty_shared))) = 2
   \<and> llen (unacked_key (example_engine BOUND_TRX))
        (snd (handle_each example_library [submit_resp_pdu, submit_resp_pdu]
               (submit_sm_each [Map.empty, Map.empty] (example_engine BOUND_TRX, empty_shared)))) = 0"
proof -
  have b: "state (fst (example_engine BOUND_TRX, empty_shared)) = BOUND_TRX
      \<or> state (fst (example_engine BOUND_TRX, empty_shared)) = BOUND_TX"
    by (simp add: example_engine_def)
  have l: "length [Map.empty :: fields, Map.empty] = 2"
    and m: "length [submit_resp_pdu, submit_resp_pdu] = 2"
    and r: "\<forall>p\<in>set [submit_resp_pdu, submit_resp_pdu]. command_id p = ''submit_sm_resp''"
    by (simp_all add: submit_resp_pdu_def)
  have z: "llen (unacked_key (fst (example_engine BOUND_TRX, empty_shared)))
             (snd (example_engine BOUND_TRX, empty_shared)) = 0"
    by (simp add: llen_def empty_shared_def)
  have two: "llen (unacked_key (example_engine BOUND_TRX))
        (snd (submit_sm_each [Map.empty, Map.empty] (example_engine BOUND_TRX, empty_shared))) = 2"
    by (simp add: llen_def submit_sm_def bound_def Let_def incSeq_def sendPDU_def lpush_def
        example_engine_def empty_shared_def unacked_key_def)
  from C1_unacked_returns_to_start [OF b l m r, of example_library] z two b show ?thesis
    by simp
qed

subsection \<open>Inbound deliver\_sm\<close>

lemma wire_invoke: "wire (invoke c x) = wire x"
  by (simp add: invoke_def)

lemma wire_reassemble: "wire (reassemble lib k p x) = wire x"
  by (simp add: reassemble_def Let_def invoke_def split: option.splits)

lemma deliver_branch_wire: "deliver_branch lib p e x = Inr y \<Longrightarrow> wire y = wire x"
  by (auto simp: deliver_branch_def wire_invoke wire_reassemble split: option.splits sum.splits)

lemma handle_deliver_sm_sent:
  assumes "command_status p = ''ESME_ROK''"
  shows "fst (snd (handle_deliver_sm lib p s)) = fst s"
    and "wire (snd (snd (handle_deliver_sm lib p s)))
           = wire (snd s) @ [DeliverSMResp (sequence_number p) (defaults (fst s))]"
  using assms
  by (auto simp: handle_deliver_sm_def Let_def sendPDU_def split: sum.splits
      dest: deliver_branch_wire)

lemma decode_table:
  "decode_message lib (PStr bs) (PInt 1)
     = (case str_decode lib ''ascii'' bs of Inl err \<Rightarrow> Inl err | Inr u \<Rightarrow> Inr (Decoded u))"
  "decode_message lib (PStr bs) (PInt 3)
     = (case str_decode lib ''latin1'' bs of Inl err \<Rightarrow> Inl err | Inr u \<Rightarrow> Inr (Decoded u))"
  "decode_message lib (PStr bs) (PInt 8)
     = (case str_decode lib ''utf-16be'' bs of Inl err \<Rightarrow> Inl err | Inr u \<Rightarrow> Inr (Decoded u))"
  "dc \<noteq> PInt 1 \<and> dc \<noteq> PInt 3 \<and> dc \<noteq> PInt 8 \<longrightarrow> decode_message lib sm dc = Inr (Raw sm)"
  by (simp_all add: decode_message_def codec_of_def)

lemma handle_pdu_deliver_sm:
  "command_id p = ''deliver_sm'' \<Longrightarrow>
     handle_pdu lib p s =
       handle_deliver_sm lib p
         (fst s, invoke (ErrorHandler (command_status_dispatch (command_status p)) p) (snd s))"
  by (simp add: handle_pdu_def Let_def split: prod.splits sum.splits)

text \<open>
  Claim C7, as amended.  \<open>handleData\<close> passes a \<open>deliver_sm\<close> PDU to \<open>handle_deliver_sm\<close>
  after the error handler of its status class.  For a PDU whose \<open>command_status\<close> is
  \<open>ESME_ROK\<close> the protocol writes a \<open>deliver_sm_resp\<close> with the sequence number of the
  PDU and then takes exactly one of three branches: when \<open>short_message\<close> matches the
  receipt pattern, the delivery report callback with the groups of the match; else, when
  \<open>detect_multipart\<close> finds markers, the reassembly under the key
  \<open>prefix#multi_key\<close>; else the message is decoded by \<open>data_coding\<close> (1 as ascii, 3 as
  latin1, 8 as utf-16be, any other value leaves it as it came) and, when the decoding
  succeeds, the deliver callback is invoked with it; when the decoding raises, the
  exception leaves the handler after the response was written.  For any other
  \<open>command_status\<close> the handler writes nothing and invokes nothing.
\<close>

theorem C7_deliver_sm_branches:
  "(command_id p = ''deliver_sm'' \<longrightarrow>
      handle_pdu lib p s =
        handle_deliver_sm lib p
          (fst s, invoke (ErrorHandler (command_status_dispatch (command_status p)) p) (snd s)))
   \<and> (command_status p \<noteq> ''ESME_ROK'' \<longrightarrow> handle_deliver_sm lib p s = (Inr (), s))
   \<and> (command_status p = ''ESME_ROK'' \<longrightarrow>
        fst (snd (handle_deliver_sm lib p s)) = fst s
        \<and> wire (snd (snd (handle_deliver_sm lib p s)))
            = wire (snd s) @ [DeliverSMResp (sequence_number p) (defaults (fst s))])
   \<and> (command_status p = ''ESME_ROK'' \<and> mandatory_parameters p = Some mp
        \<and> mp ''short_message'' = Some sm \<and> or_empty sm = Inr msg
        \<and> mp ''destination_addr'' = Some dst \<and> mp ''source_addr'' = Some src \<longrightarrow>
        (\<forall>g. re_search delivery_report_pattern msg = Some g \<longrightarrow>
           handle_deliver_sm lib p s =
             (Inr (), (fst s, invoke (DeliveryReportCallback dst src g)
                (snd (sendPDU (DeliverSMResp (sequence_number p) (defaults (fst s))) s)))))
        \<and> (\<forall>d. re_search delivery_report_pattern msg = None \<and> detect_multipart lib p = Some d \<longrightarrow>
           handle_deliver_sm lib p s =
             (Inr (), (fst s, reassemble lib (r_prefix (fst s) @ ''#multi_'' @ multipart_key lib d) p
                (snd (sendPDU (DeliverSMResp (sequence_number p) (defaults (fst s))) s)))))
        \<and> (\<forall>dc. re_search delivery_report_pattern msg = None \<and> detect_multipart lib p = None
              \<and> mp ''data_coding'' = Some dc \<longrightarrow>
           (\<forall>m. decode_message lib sm dc = Inr m \<longrightarrow>
              handle_deliver_sm lib p s =
                (Inr (), (fst s, invoke (DeliverSMCallback dst src m)
                   (snd (sendPDU (DeliverSMResp (sequence_number p) (defaults (fst s))) s)))))
           \<and> (\<forall>err. decode_message lib sm dc = Inl err \<longrightarrow>
              handle_deliver_sm lib p s =
                (Inl err, sendPDU (DeliverSMResp (sequence_number p) (defaults (fst s))) s))))
   \<and> decode_message lib (PStr bs) (PInt 1)
       = (case str_decode lib ''ascii'' bs of Inl err \<Rightarrow> Inl err | Inr u \<Rightarrow> Inr (Decoded u))
   \<and> decode_message lib (PStr bs) (PInt 3)
       = (case str_decode lib ''latin1'' bs of Inl err \<Rightarrow> Inl err | Inr u \<Rightarrow> Inr (Decoded u))
   \<and> decode_message lib (PStr bs) (PInt 8)
       = (case str_decode lib ''utf-16be'' bs of Inl err \<Rightarrow> Inl err | Inr u \<Rightarrow> Inr (Decoded u))
   \<and> (data_coding \<noteq> PInt 1 \<and> data_coding \<noteq> PInt 3 \<and> data_coding \<noteq> PInt 8 \<longrightarrow>
        decode_message lib sm' data_coding = Inr (Raw sm'))"
proof -
  have branches: "command_status p = ''ESME_ROK'' \<and> mandatory_parameters p = Some mp
        \<and> mp ''short_message'' = Some sm \<and> or_empty sm = Inr msg
        \<and> mp ''destination_addr'' = Some dst \<and> mp ''source_addr'' = Some src \<longrightarrow>
        (\<forall>g. re_search delivery_report_pattern msg = Some g \<longrightarrow>
           handle_deliver_sm lib p s =
             (Inr (), (fst s, invoke (DeliveryReportCallback dst src g)
                (snd (sendPDU (DeliverSMResp (sequence_number p) (defaults (fst s))) s)))))
        \<and> (\<forall>d. re_search delivery_report_pattern msg = None \<and> detect_multipart lib p = Some d \<longrightarrow>
           handle_deliver_sm lib p s =
             (Inr (), (fst s, reassemble lib (r_prefix (fst s) @ ''#multi_'' @ multipart_key lib d) p
                (snd (sendPDU (DeliverSMResp (sequence_number p) (defaults (fst s))) s)))))
        \<and> (\<forall>dc. re_search delivery_report_pattern msg = None \<and> detect_multipart lib p = None
              \<and> mp ''data_coding'' = Some dc \<longrightarrow>
           (\<forall>m. decode_message lib sm dc = Inr m \<longrightarrow>
              handle_deliver_sm lib p s =
                (Inr (), (fst s, invoke (DeliverSMCallback dst src m)
                   (snd (sendPDU (DeliverSMResp (sequence_number p) (defaults (fst s))) s)))))
           \<and> (\<forall>err. decode_message lib sm dc = Inl err \<longrightarrow>
              handle_deliver_sm lib p s =
                (Inl err, sendPDU (DeliverSMResp (sequence_number p) (defaults (fst s))) s)))"
    by (simp add: handle_deliver_sm_def Let_def deliver_branch_def lookup_def sendPDU_def)
  have rejected: "command_status p \<noteq> ''ESME_ROK'' \<longrightarrow> handle_deliver_sm lib p s = (Inr (), s)"
    by (simp add: handle_deliver_sm_def)
  from branches rejected handle_pdu_deliver_sm [of p lib s] handle_deliver_sm_sent [of p lib s]
    decode_table(1,2,3) [of lib bs] decode_table(4) [of data_coding lib sm']
  show ?thesis by blast
qed

lemma hello_is_no_receipt: "re_search delivery_report_pattern ''hello'' = None"
  by code_simp

theorem C7_deliver_sm_branches_witness:
  "command_status plain_pdu = ''ESME_ROK''
   \<and> re_search delivery_report_pattern ''hello'' = None
   \<and> handle_deliver_sm example_library plain_pdu (example_engine BOUND_TRX, empty_shared)
       = (Inr (), (example_engine BOUND_TRX,
            empty_shared\<lparr>wire := [DeliverSMResp 9 Map.empty],
                          calls := [DeliverSMCallback (PStr ''27831234567'') (PStr ''27820000000'')
                                      (Decoded [104, 101, 108, 108, 111])]\<rparr>))"
proof -
  define mp where "mp = [''short_message'' \<mapsto> PStr ''hello'', ''data_coding'' \<mapsto> PInt 3,
              ''destination_addr'' \<mapsto> PStr ''27831234567'',
              ''source_addr'' \<mapsto> PStr ''27820000000'']"
  have h1: "command_status plain_pdu = ''ESME_ROK''"
    and h2: "mandatory_parameters plain_pdu = Some mp"
    and h3: "mp ''short_message'' = Some (PStr ''hello'')"
    and h4: "or_empty (PStr ''hello'') = Inr ''hello''"
    and h5: "mp ''destination_addr'' = Some (PStr ''27831234567'')"
    and h6: "mp ''source_addr'' = Some (PStr ''27820000000'')"
    and h7: "detect_multipart example_library plain_pdu = None"
    and h8: "mp ''data_coding'' = Some (PInt 3)"
    by (simp_all add: plain_pdu_def mp_def or_empty_def example_library_def)
  have h9: "decode_message example_library (PStr ''hello'') (PInt 3)
              = Inr (Decoded [104, 101, 108, 108, 111])"
    by (simp add: decode_message_def codec_of_def example_library_def)
  have sent: "sendPDU (DeliverSMResp (sequence_number plain_pdu)
                 (defaults (fst (example_engine BOUND_TRX, empty_shared))))
               (example_engine BOUND_TRX, empty_shared)
              = (example_engine BOUND_TRX, empty_shared\<lparr>wire := [DeliverSMResp 9 Map.empty]\<rparr>)"
    by (simp add: sendPDU_def plain_pdu_def example_engine_def empty_shared_def)
  have "handle_deliver_sm example_library plain_pdu (example_engine BOUND_TRX, empty_shared)
      = (Inr (), (fst (example_engine BOUND_TRX, empty_shared),
           invoke (DeliverSMCallback (PStr ''27831234567'') (PStr ''27820000000'')
                     (Decoded [104, 101, 108, 108, 111]))
             (snd (sendPDU (DeliverSMResp (sequence_number plain_pdu)
                      (defaults (fst (example_engine BOUND_TRX, empty_shared))))
                    (example_engine BOUND_TRX, empty_shared)))))"
    using C7_deliver_sm_branches [where p = plain_pdu and lib = example_library
        and s = "(example_engine BOUND_TRX, empty_shared)" and mp = mp
        and sm = "PStr ''hello''" and msg = "''hello''"
        and dst = "PStr ''27831234567''" and src = "PStr ''27820000000''"]
      h1 h2 h3 h4 h5 h6 h7 h8 h9 hello_is_no_receipt
    by blast
  with sent h1 hello_is_no_receipt show ?thesis
    by (simp add: invoke_def empty_shared_def)
qed

text \<open>
  The claim as written fails on a \<open>deliver_sm\<close> PDU whose status is not \<open>ESME_ROK\<close>:
  only the error handler of the status class runs; no \<open>deliver_sm_resp\<close> is written and
  no callback is invoked.
\<close>

theorem C7_rejected_deliver_sm_counterexample:
  "command_id rejected_pdu = ''deliver_sm''
   \<and> handle_pdu example_library rejected_pdu (example_engine BOUND_TRX, empty_shared)
       = (Inr (), (example_engine BOUND_TRX,
            empty_shared\<lparr>calls := [ErrorHandler conn_permfault rejected_pdu]\<rparr>))
   \<and> wire (snd (snd (handle_pdu example_library rejected_pdu
                        (example_engine BOUND_TRX, empty_shared)))) = []"
proof -
  have c: "command_status_dispatch ''ESME_RSYSERR'' = conn_permfault"
    by (simp add: command_status_dispatch_def ESME_command_status_dispatch_map_def)
  have i: "command_id rejected_pdu = ''deliver_sm''"
    and t: "command_status rejected_pdu = ''ESME_RSYSERR''"
    by (simp_all add: rejected_pdu_def plain_pdu_def)
  have h: "handle_pdu example_library rejected_pdu (example_engine BOUND_TRX, empty_shared)
       = (Inr (), (example_engine BOUND_TRX,
            empty_shared\<lparr>calls := [ErrorHandler conn_permfault rejected_pdu]\<rparr>))"
    by (simp add: handle_pdu_def Let_def i t c handle_deliver_sm_def handle_submit_multi_resp_def
        handle_enquire_link_resp_def invoke_def empty_shared_def)
  from i h show ?thesis by (simp add: empty_shared_def)
qed

subsection \<open>Sequence numbers over a run\<close>

lemma map_filter_snoc:
  "List.map_filter f (xs @ [p]) = List.map_filter f xs @ (case f p of None \<Rightarrow> [] | Some n \<Rightarrow> [n])"
  by (simp add: List.map_filter_def split: option.splits)

lemma allocated_cells_update [simp]: "allocated (x\<lparr>cells := c\<rparr>) = allocated x"
  by (simp add: allocated_def)

lemma allocated_invoke [simp]: "allocated (invoke c x) = allocated x"
  by (simp add: allocated_def invoke_def)

lemma allocated_lpush [simp]: "allocated (lpush k v x) = allocated x"
  by (simp add: allocated_def lpush_def)

lemma allocated_lpop [simp]: "allocated (lpop k x) = allocated x"
  by (simp add: allocated_def lpop_def)

lemma allocated_reassemble [simp]: "allocated (reassemble lib k p x) = allocated x"
  by (simp add: allocated_def wire_reassemble)

lemma cells_invoke [simp]: "cells (invoke c x) = cells x"
  by (simp add: invoke_def)

lemma cells_reassemble [simp]: "cells (reassemble lib k p x) = cells x"
  by (simp add: reassemble_def Let_def invoke_def split: option.splits)

lemma deliver_branch_keeps:
  "deliver_branch lib p e x = Inr y \<Longrightarrow> cells y = cells x \<and> allocated y = allocated x"
  by (auto simp: deliver_branch_def split: option.splits sum.splits)

lemma alloc_step_submit_sm: "alloc_step s (snd (submit_sm kwargs s))"
  by (simp add: alloc_step_def submit_sm_def Let_def incSeq_def sendPDU_def getSeq_def
      allocated_def map_filter_snoc lpush_def lpop_def invoke_def)

lemma alloc_step_submit_multi: "alloc_step s (snd (submit_multi da kwargs s))"
  by (simp add: alloc_step_def submit_multi_def Let_def incSeq_def sendPDU_def getSeq_def
      allocated_def map_filter_snoc lpush_def lpop_def invoke_def split: sum.splits)

lemma alloc_step_enquire_link: "alloc_step s (snd (enquire_link kwargs s))"
  by (simp add: alloc_step_def enquire_link_def Let_def incSeq_def sendPDU_def getSeq_def
      allocated_def map_filter_snoc lpush_def lpop_def invoke_def)

lemma alloc_step_query_sm: "alloc_step s (snd (query_sm m a kwargs s))"
  by (simp add: alloc_step_def query_sm_def Let_def incSeq_def sendPDU_def getSeq_def
      allocated_def map_filter_snoc lpush_def lpop_def invoke_def)

lemma alloc_step_connectionMade: "alloc_step s (connectionMade s)"
  by (simp add: alloc_step_def connectionMade_def Let_def incSeq_def sendPDU_def getSeq_def
      allocated_def map_filter_snoc lpush_def lpop_def invoke_def)

lemma alloc_step_connectionLost: "alloc_step s (connectionLost s)"
  by (simp add: alloc_step_def connectionLost_def)

lemma alloc_step_refl: "alloc_step s s"
  by (simp add: alloc_step_def)

lemma alloc_step_handle_deliver_sm: "alloc_step s (snd (handle_deliver_sm lib p s))"
  by (auto simp: alloc_step_def handle_deliver_sm_def Let_def sendPDU_def allocated_def map_filter_snoc lpush_def lpop_def invoke_def
      split: sum.splits dest: deliver_branch_keeps)

lemma alloc_step_handle_pdu: "alloc_step s (snd (handle_pdu lib p s))"
proof -
  have d: "alloc_step (fst s, invoke c (snd s)) (snd (handle_deliver_sm lib p (fst s, invoke c (snd s))))"
    for c by (rule alloc_step_handle_deliver_sm)
  show ?thesis
  proof (cases "command_id p = ''deliver_sm''")
    case True
    with d show ?thesis
      by (simp add: handle_pdu_deliver_sm alloc_step_def getSeq_def)
  next
    case False
    then show ?thesis
      by (simp add: alloc_step_def handle_pdu_def Let_def handle_bind_transceiver_resp_def
          enquire_link_def incSeq_def getSeq_def bound_def
          handle_submit_sm_resp_def handle_submit_multi_resp_def handle_enquire_link_def
          handle_enquire_link_resp_def sendPDU_def allocated_def map_filter_snoc lpush_def lpop_def invoke_def)
  qed
qed

lemma alloc_step_handleData: "alloc_step s (snd (handleData lib d s))"
  by (simp add: handleData_def alloc_step_handle_pdu alloc_step_refl split: sum.splits)







lemma example_init:
  "EsmeTransceiverFactory_init example_config empty_shared
     = (Inr example_factory, empty_shared\<lparr>cells := (\<lambda>_. 0)(0 := 3), next_cell := Suc 0\<rparr>)"
  by (simp add: EsmeTransceiverFactory_init_def example_config_def example_factory_def
      empty_shared_def)



subsection \<open>The numbers the operations return\<close>

lemma on_engine_floor:
  assumes "floor_inv cfg w" and "1 \<le> smpp_increment cfg" and "\<And>s. alloc_step s (g s)"
  shows "floor_inv cfg (on_engine i g w)"
proof (cases "i < length (engines w)")
  case False
  with assms(1) show ?thesis by (simp add: on_engine_def)
next
  case True
  define e where "e = engines w ! i"
  define s' where "s' = g (e, common w)"
  have mem: "e \<in> set (engines w)" using True by (simp add: e_def)
  have all: "\<forall>x\<in>set (engines w). inc x = smpp_increment cfg \<and> smpp_offset cfg \<le> cells (common w) (seq x)"
    using assms(1) by (simp add: floor_inv_def list_all_iff)
  with mem have e: "inc e = smpp_increment cfg" "smpp_offset cfg \<le> cells (common w) (seq e)"
    by auto
  have st: "alloc_step (e, common w) s'" using assms(3) by (simp add: s'_def)
  have e': "seq (fst s') = seq e" "inc (fst s') = smpp_increment cfg"
    using st e by (simp_all add: alloc_step_def)
  have up: "smpp_offset cfg \<le> cells (snd s') a" if "smpp_offset cfg \<le> cells (common w) a" for a
    using st that e assms(2) by (auto simp: alloc_step_def getSeq_def)
  have w': "on_engine i g w = w\<lparr>engines := (engines w)[i := fst s'], common := snd s'\<rparr>"
    using True by (simp add: on_engine_def e_def s'_def Let_def)
  have all': "list_all (\<lambda>x. inc x = smpp_increment cfg \<and> smpp_offset cfg \<le> cells (snd s') (seq x))
                ((engines w)[i := fst s'])"
    unfolding list_all_iff
  proof
    fix x assume "x \<in> set ((engines w)[i := fst s'])"
    then have "x = fst s' \<or> x \<in> set (engines w)"
      using set_update_subset_insert [of "engines w" i "fst s'"] by auto
    with all e e' up show "inc x = smpp_increment cfg \<and> smpp_offset cfg \<le> cells (snd s') (seq x)"
      by auto
  qed
  have "f_config (the_factory w) = cfg"
    and "smpp_offset cfg \<le> cells (snd s') (f_seq (the_factory w))"
    using assms(1) up by (simp_all add: floor_inv_def)
  with all' w' show ?thesis by (simp add: floor_inv_def)
qed

lemma step_floor:
  assumes "floor_inv cfg w" and "1 \<le> smpp_increment cfg" and "latest_ok cfg ev"
  shows "floor_inv cfg (step lib w ev)"
proof (cases ev)
  case Build
  with assms(1) show ?thesis
    by (simp add: floor_inv_def buildProtocol_def loadDefaults_def EsmeTransceiver_init_def)
next
  case (Set_latest n)
  with assms(1,3) show ?thesis
    by (auto simp: floor_inv_def latest_ok_def setLatestSequenceNumber_def Let_def list_all_iff)
qed (simp_all add: on_engine_floor [OF assms(1,2)] alloc_step_connectionMade
      alloc_step_connectionLost alloc_step_handleData alloc_step_enquire_link alloc_step_refl
      alloc_step_submit_sm alloc_step_submit_multi alloc_step_query_sm)

lemma run_floor:
  "floor_inv cfg w \<Longrightarrow> 1 \<le> smpp_increment cfg \<Longrightarrow> \<forall>ev\<in>set evs. latest_ok cfg ev \<Longrightarrow>
     floor_inv cfg (run lib w evs)"
  unfolding run_def
  by (induction evs arbitrary: w) (simp_all add: step_floor)

lemma init_floor:
  assumes "EsmeTransceiverFactory_init cfg sh0 = (Inr f, sh1)"
  shows "floor_inv cfg \<lparr>the_factory = f, engines = [], common = sh1\<rparr>"
    and "1 \<le> smpp_offset cfg" and "1 \<le> smpp_increment cfg"
  using assms
  by (auto simp: EsmeTransceiverFactory_init_def floor_inv_def split: if_splits)

text \<open>
  Claim C10, as amended.  Take a factory whose construction succeeded and any run of it
  in which every value given to \<open>setLatestSequenceNumber\<close> is at least \<open>offset\<close>.  On any
  protocol of the run: in a bound state \<open>submit_sm\<close>, \<open>enquire_link\<close> and \<open>query_sm\<close>
  return the cursor value, which is at least \<open>offset\<close> and so at least 1, and so does
  \<open>submit_multi\<close> unless it raises; hence whenever one of the four operations returns a
  number, that number is 0 exactly when the protocol was not bound.
\<close>

theorem C10_returned_numbers_positive:
  assumes "EsmeTransceiverFactory_init cfg sh0 = (Inr f, sh1)"
    and "\<forall>ev\<in>set evs. latest_ok cfg ev"
    and "w = run lib \<lparr>the_factory = f, engines = [], common = sh1\<rparr> evs"
    and "i < length (engines w)" and "s = (engines w ! i, common w)"
  shows "(bound (fst s) \<longrightarrow>
            smpp_offset cfg \<le> getSeq s \<and> 1 \<le> getSeq s
            \<and> fst (submit_sm kwargs s) = Inr (getSeq s)
            \<and> fst (enquire_link kwargs s) = Inr (getSeq s)
            \<and> fst (query_sm message_id source_addr kwargs s) = Inr (getSeq s)
            \<and> (fst (submit_multi dest_address kwargs s) = Inr (getSeq s)
                \<or> (\<exists>err. submit_multi dest_address kwargs s = (Inl err, s))))
    \<and> (\<forall>n. fst (submit_sm kwargs s) = Inr n \<or> fst (submit_multi dest_address kwargs s) = Inr n
            \<or> fst (query_sm message_id source_addr kwargs s) = Inr n
            \<or> fst (enquire_link kwargs s) = Inr n \<longrightarrow>
          (n = 0) = (\<not> bound (fst s)) \<and> (bound (fst s) \<longrightarrow> smpp_offset cfg \<le> n \<and> 1 \<le> n))"
proof -
  note i = init_floor [OF assms(1)]
  have inv: "floor_inv cfg w"
    using run_floor [OF i(1) i(3) assms(2), of lib] assms(3) by simp
  have "engines w ! i \<in> set (engines w)" using assms(4) by simp
  with inv have "smpp_offset cfg \<le> getSeq s"
    using assms(5) by (auto simp: floor_inv_def list_all_iff getSeq_def)
  then have g: "smpp_offset cfg \<le> getSeq s" "1 \<le> getSeq s"
    using i(2) by simp_all
  show ?thesis
    using g
    by (auto simp: submit_sm_def submit_multi_def enquire_link_def query_sm_def Let_def
        split: sum.splits)
qed

lemma example_restored:
  "bound (engines (run example_library example_world example_restore) ! 0)"
  "getSeq (engines (run example_library example_world example_restore) ! 0,
           common (run example_library example_world example_restore)) = 123"
  "0 < length (engines (run example_library example_world example_restore))"
  by code_simp+

theorem C10_returned_numbers_positive_witness:
  "bound (engines (run example_library example_world example_restore) ! 0)
   \<and> fst (submit_sm Map.empty (engines (run example_library example_world example_restore) ! 0,
                               common (run example_library example_world example_restore))) = Inr 123
   \<and> smpp_offset example_config \<le> 123"
proof -
  have h1: "EsmeTransceiverFactory_init example_config empty_shared
              = (Inr example_factory, common example_world)"
    by (simp add: example_init example_world_def)
  have h3: "\<forall>ev\<in>set example_restore. latest_ok example_config ev"
    by (simp add: example_restore_def latest_ok_def example_config_def)
  have h4: "run example_library example_world example_restore
      = run example_library \<lparr>the_factory = example_factory, engines = [], common = common example_world\<rparr>
          example_restore"
    by (simp add: example_world_def)
  from C10_returned_numbers_positive [OF h1 h3 h4 example_restored(3) refl, of Map.empty] example_restored(1,2)
  show ?thesis by simp
qed

text \<open>
  The claim as written fails: \<open>setLatestSequenceNumber\<close> takes any number.  With
  offset 3 and increment 10, after \<open>setLatestSequenceNumber(-20)\<close> the next protocol
  binds with \<open>-20\<close>, the looping call's first \<open>enquire_link\<close> takes \<open>-10\<close>, and
  \<open>submit_sm\<close> on the bound protocol returns 0.
\<close>

theorem C10_set_latest_counterexample:
  "EsmeTransceiverFactory_init example_config empty_shared
     = (Inr example_factory, common example_world)
   \<and> smpp_offset example_config = 3 \<and> smpp_increment example_config = 10
   \<and> bound (engines (run example_library example_world example_reset) ! 0)
   \<and> fst (submit_sm Map.empty (engines (run example_library example_world example_reset) ! 0,
                               common (run example_library example_world example_reset))) = Inr 0"
proof -
  have h1: "EsmeTransceiverFactory_init example_config empty_shared
              = (Inr example_factory, common example_world)"
    by (simp add: example_init example_world_def)
  have h2: "smpp_offset example_config = 3" "smpp_increment example_config = 10"
    by (simp_all add: example_config_def)
  have h3: "bound (engines (run example_library example_world example_reset) ! 0)"
    by code_simp
  have h4: "fst (submit_sm Map.empty (engines (run example_library example_world example_reset) ! 0,
                               common (run example_library example_world example_reset))) = Inr 0"
    by code_simp
  from h1 h2 h3 h4 show ?thesis by simp
qed

end
